theory Spec2Isabelle
  imports Main "HOL-Library.Word" "HOL-Library.Code_Target_Numeral"
begin

unbundle bit_operations_syntax

section \<open>The EEPROM driver of eeprom.cpp\<close>

text \<open>
  The driver presents a serial EEPROM behind an I2C bus as a linear space of bytes.
  This theory embeds the class \<open>EEPROM\<close> of \<open>eeprom.cpp\<close>: its constructor, the bounds
  check, the resolution of a logical address into a device address and a word address,
  the byte and page writers, the readers, \<open>clear\<close> and the accessors.

  Conventions. The 32-bit unsigned quantities of the source (addresses, lengths,
  counters) are natural numbers, and every place where the source's arithmetic can wrap
  is written with the wrap: \<open>u32\<close> reduces to 32 bits, \<open>to_int32\<close> reads 32 bits as
  signed. The 8-bit quantities that take part in bit operations (the chip-select value,
  the device address, the page block) are \<open>8 word\<close>. The members of the class are the
  fields of the record \<open>eeprom\<close>; a member \<open>_x\<close> of the source is the field \<open>m_x\<close>.
\<close>

type_synonym byte = "8 word"

definition u32 :: "nat \<Rightarrow> nat" where
  "u32 n = n mod 4294967296"

definition to_int32 :: "nat \<Rightarrow> int" where
  "to_int32 n = (if u32 n < 2147483648 then int (u32 n) else int (u32 n) - 4294967296)"

subsection \<open>What the header declares\<close>

datatype TypeEeprom =
    T24C01 | T24C02 | T24C04 | T24C08 | T24C16 | T24C32 | T24C64
  | T24C128 | T24C256 | T24C512 | T24C1024 | T24C1025 | M24M02

text \<open>
  Modelled from the spec: the header \<open>eeprom.h\<close>, which gives the enumerators of
  \<open>TypeEeprom\<close> their values, is not among the sources. The source uses an enumerator as
  the chip's size in bytes (\<open>_size = _type\<close>, \<open>address >= T24C01\<close>) and the spec calls
  that number the variant's nominal capacity, so each enumerator is given the number of
  bytes of the chip it names (a 24C01 holds 1 kbit, an M24M02 2 Mbit). \<open>T24C1024\<close> and
  \<open>T24C1025\<close> label two cases of one \<open>switch\<close>, so they differ; the constructor takes
  \<open>T24C1024\<close> as the size of a \<open>T24C1025\<close> and \<open>checkAddress\<close> takes \<open>T24C1025 - 1\<close>, which
  makes \<open>T24C1025\<close> one more than \<open>T24C1024\<close>.
\<close>

fun TypeEeprom_value :: "TypeEeprom \<Rightarrow> nat" where
  "TypeEeprom_value T24C01 = 128"
| "TypeEeprom_value T24C02 = 256"
| "TypeEeprom_value T24C04 = 512"
| "TypeEeprom_value T24C08 = 1024"
| "TypeEeprom_value T24C16 = 2048"
| "TypeEeprom_value T24C32 = 4096"
| "TypeEeprom_value T24C64 = 8192"
| "TypeEeprom_value T24C128 = 16384"
| "TypeEeprom_value T24C256 = 32768"
| "TypeEeprom_value T24C512 = 65536"
| "TypeEeprom_value T24C1024 = 131072"
| "TypeEeprom_value T24C1025 = 131073"
| "TypeEeprom_value M24M02 = 262144"

text \<open>
  Modelled from the spec: the macro \<open>EEPROM_Address\<close> is defined in the missing header.
  It is the constant part of the bus address, to which the constructor's chip-select bits
  and the block bits are OR-ed; \<open>0xA0\<close> is the device-type code \<open>1010\<close> of the 24Cxx
  family in the upper four bits of the address byte.
\<close>

definition EEPROM_Address :: "8 word" where
  "EEPROM_Address = 0xA0"

text \<open>
  The error codes are macros of the header too. The source only stores them in \<open>_errnum\<close>
  and tests \<open>if (_errnum)\<close>; they are the constructors of a datatype here, and the test
  is \<open>m_errnum e \<noteq> EEPROM_NoError\<close>.
\<close>

datatype eeprom_error =
    EEPROM_NoError | EEPROM_BadAddress | EEPROM_I2cError
  | EEPROM_OutOfRange | EEPROM_MallocError

subsection \<open>The bus and the chip behind it\<close>

text \<open>
  Modelled from the spec: the class \<open>I2C\<close> (mbed) and the chip are outside the
  repository. The spec gives the transport as \<open>transaction_write(device_address, bytes,
  send_stop)\<close> and \<open>transaction_read(device_address, into)\<close>, each returning an
  acknowledgement code that is zero on success, and says that an EEPROM does not
  acknowledge while a write cycle is in progress. The memory is a flat array of bytes:
  the seven address bits of the device address byte are the high part of the index of a
  cell, the word address (\<open>alen\<close> bytes, most significant first) the low part. A write
  transaction that carries a word address sets the pointer \<open>ptr\<close>; data bytes go to
  consecutive cells; a read returns consecutive cells from the pointer. After a write of
  data the chip refuses the next \<open>cycle\<close> transactions. A chip that is not \<open>present\<close>
  acknowledges nothing. Every transaction is appended to \<open>log\<close>.
\<close>

datatype xfer = Xfer_Write "8 word" "byte list" bool | Xfer_Read "8 word" nat

record i2c_bus =
  mem :: "nat \<Rightarrow> byte"
  ptr :: nat
  alen :: nat
  busy :: nat
  cycle :: nat
  present :: bool
  log :: "xfer list"

definition word_address :: "byte list \<Rightarrow> nat" where
  "word_address bs = foldl (\<lambda>a b. a * 256 + unat b) 0 bs"

definition cell :: "i2c_bus \<Rightarrow> 8 word \<Rightarrow> nat \<Rightarrow> nat" where
  "cell b addr w = (unat addr div 2) * 256 ^ alen b + w"

definition store_bytes :: "(nat \<Rightarrow> byte) \<Rightarrow> nat \<Rightarrow> byte list \<Rightarrow> (nat \<Rightarrow> byte)" where
  "store_bytes f p bs = (\<lambda>c. if p \<le> c \<and> c < p + length bs then bs ! (c - p) else f c)"

definition i2c_write :: "i2c_bus \<Rightarrow> 8 word \<Rightarrow> byte list \<Rightarrow> bool \<Rightarrow> int \<times> i2c_bus" where
  "i2c_write b addr bs repeated =
     (let b1 = b\<lparr>log := log b @ [Xfer_Write addr bs repeated]\<rparr> in
      if \<not> present b then (1, b1)
      else if 0 < busy b then (1, b1\<lparr>busy := busy b - 1\<rparr>)
      else if length bs < alen b then (0, b1)
      else
        let p = cell b addr (word_address (take (alen b) bs));
            payload = drop (alen b) bs
        in (0, b1\<lparr>mem := store_bytes (mem b) p payload,
                  ptr := p + length payload,
                  busy := (if payload = [] then 0 else cycle b)\<rparr>))"

definition i2c_read :: "i2c_bus \<Rightarrow> 8 word \<Rightarrow> nat \<Rightarrow> int \<times> byte list \<times> i2c_bus" where
  "i2c_read b addr n =
     (let b1 = b\<lparr>log := log b @ [Xfer_Read addr n]\<rparr> in
      if \<not> present b then (1, [], b1)
      else if 0 < busy b then (1, [], b1\<lparr>busy := busy b - 1\<rparr>)
      else (0, map (mem b) [ptr b ..< ptr b + n], b1\<lparr>ptr := ptr b + n\<rparr>))"

subsection \<open>The object and its constructor\<close>

record eeprom =
  m_i2c :: i2c_bus
  m_address :: "8 word"
  m_errnum :: eeprom_error
  m_type :: TypeEeprom
  m_page_write :: nat
  m_page_block_number :: nat
  m_size :: nat

text \<open>
  \<open>EEPROM(sda, scl, address, type)\<close>. The pins make the bus object, which is the first
  argument here; setting the frequency of the bus has no counterpart. \<open>_address\<close> only
  ever enters the 8-bit device address, so it is kept to 8 bits from the start.
\<close>

definition EEPROM :: "i2c_bus \<Rightarrow> 8 word \<Rightarrow> TypeEeprom \<Rightarrow> eeprom" where
  "EEPROM bus address type =
     (let bad = (\<lambda>lim. if address > lim then EEPROM_BadAddress else EEPROM_NoError);
          (err, a, pw, pbn) =
            (case type of
               T24C01 \<Rightarrow> (bad 7, push_bit 1 address, 8, 1)
             | T24C02 \<Rightarrow> (bad 7, push_bit 1 address, 8, 1)
             | T24C04 \<Rightarrow> (bad 7, push_bit 1 (address AND 0xFE), 16, 2)
             | T24C08 \<Rightarrow> (bad 7, push_bit 1 (address AND 0xFC), 16, 4)
             | T24C16 \<Rightarrow> (EEPROM_NoError, 0, 16, 8)
             | T24C32 \<Rightarrow> (bad 7, push_bit 1 address, 32, 1)
             | T24C64 \<Rightarrow> (bad 7, push_bit 1 address, 32, 1)
             | T24C128 \<Rightarrow> (bad 7, push_bit 1 address, 64, 1)
             | T24C256 \<Rightarrow> (bad 7, push_bit 1 address, 64, 1)
             | T24C512 \<Rightarrow> (bad 7, push_bit 1 address, 128, 1)
             | T24C1024 \<Rightarrow> (bad 3, push_bit 1 (address AND 0xFE), 128, 2)
             | T24C1025 \<Rightarrow> (bad 3, push_bit 1 address, 128, 2)
             | M24M02 \<Rightarrow> (bad 1, push_bit 3 address, 256, 4))
      in \<lparr>m_i2c = bus, m_address = a, m_errnum = err, m_type = type,
          m_page_write = pw, m_page_block_number = pbn,
          m_size = (if type = T24C1025 then TypeEeprom_value T24C1024
                    else TypeEeprom_value type)\<rparr>)"

definition getSize :: "eeprom \<Rightarrow> nat" where
  "getSize e = m_size e"


definition getName :: "eeprom \<Rightarrow> string" where
  "getName e =
     (case m_type e of
        T24C01 \<Rightarrow> ''24C01'' | T24C02 \<Rightarrow> ''24C02'' | T24C04 \<Rightarrow> ''24C04''
      | T24C08 \<Rightarrow> ''24C08'' | T24C16 \<Rightarrow> ''24C16'' | T24C32 \<Rightarrow> ''24C32''
      | T24C64 \<Rightarrow> ''24C64'' | T24C128 \<Rightarrow> ''24C128'' | T24C256 \<Rightarrow> ''24C256''
      | T24C512 \<Rightarrow> ''24C512'' | T24C1024 \<Rightarrow> ''24C1024'' | T24C1025 \<Rightarrow> ''24C1025''
      | M24M02 \<Rightarrow> ''M24M02'')"

subsection \<open>Bounds check and address resolution\<close>

definition checkAddress :: "eeprom \<Rightarrow> nat \<Rightarrow> bool" where
  "checkAddress e address =
     (case m_type e of
        T24C01 \<Rightarrow> \<not> address \<ge> TypeEeprom_value T24C01
      | T24C02 \<Rightarrow> \<not> address \<ge> TypeEeprom_value T24C02
      | T24C04 \<Rightarrow> \<not> address \<ge> TypeEeprom_value T24C04
      | T24C08 \<Rightarrow> \<not> address \<ge> TypeEeprom_value T24C08
      | T24C16 \<Rightarrow> \<not> address \<ge> TypeEeprom_value T24C16
      | T24C32 \<Rightarrow> \<not> address \<ge> TypeEeprom_value T24C32
      | T24C64 \<Rightarrow> \<not> address \<ge> TypeEeprom_value T24C64
      | T24C128 \<Rightarrow> \<not> address \<ge> TypeEeprom_value T24C128
      | T24C256 \<Rightarrow> \<not> address \<ge> TypeEeprom_value T24C256
      | T24C512 \<Rightarrow> \<not> address \<ge> TypeEeprom_value T24C512
      | T24C1024 \<Rightarrow> \<not> address \<ge> TypeEeprom_value T24C1024
      | T24C1025 \<Rightarrow> \<not> address \<ge> TypeEeprom_value T24C1025 - 1
      | M24M02 \<Rightarrow> \<not> address \<ge> TypeEeprom_value M24M02 - 1)"

text \<open>
  "Compute page block" and "Device address": the same lines open the byte write, each
  round of the page write and both addressed reads. \<open>page_block\<close> is a \<open>uint8_t\<close>, so the
  quotient is cut to 8 bits; the device address is cut to 8 bits as well.
\<close>

definition compute_page_block :: "eeprom \<Rightarrow> nat \<Rightarrow> 8 word \<times> nat" where
  "compute_page_block e address =
     (if TypeEeprom_value (m_type e) < TypeEeprom_value T24C32
        then (of_nat (address div 255), address mod 255)
      else if TypeEeprom_value (m_type e) > TypeEeprom_value T24C512
        then (of_nat (address div 65535), address mod 65535)
      else (0, address))"

definition device_address :: "eeprom \<Rightarrow> 8 word \<Rightarrow> 8 word" where
  "device_address e page_block = EEPROM_Address OR m_address e OR push_bit 1 page_block"

text \<open>"Depending on the EEPROM the address can either be on one or two bytes".\<close>

definition address_len :: "eeprom \<Rightarrow> nat" where
  "address_len e = (if TypeEeprom_value (m_type e) < TypeEeprom_value T24C32 then 1 else 2)"

definition address_bytes :: "nat \<Rightarrow> nat \<Rightarrow> byte list" where
  "address_bytes len address =
     map (\<lambda>l. of_nat (address div 2 ^ (8 * (len - l - 1)))) [0..<len]"

subsection \<open>Waiting for the end of a write cycle\<close>

text \<open>
  \<open>ready()\<close> repeats a write of no bytes until the chip acknowledges. Nothing bounds
  the loop, so the poll is a partial function: \<open>None\<close> is a loop that never ends.
\<close>

partial_function (option) ready_poll :: "8 word \<Rightarrow> i2c_bus \<Rightarrow> i2c_bus option" where
  "ready_poll addr b =
     (let r = i2c_write b addr [] False in
      if fst r \<noteq> 0 then ready_poll addr (snd r) else Some (snd r))"

declare ready_poll.simps [code]

definition ready :: "eeprom \<Rightarrow> eeprom option" where
  "ready e =
     (if m_errnum e \<noteq> EEPROM_NoError then Some e
      else case ready_poll (EEPROM_Address OR m_address e) (m_i2c e) of
             None \<Rightarrow> None
           | Some b \<Rightarrow> Some (e\<lparr>m_i2c := b\<rparr>))"

subsection \<open>Reading\<close>

text \<open>
  A reader gets the destination buffer as it is before the call and returns it as it is
  after; a call that fails leaves it as it was.
\<close>

definition read_byte :: "eeprom \<Rightarrow> nat \<Rightarrow> byte \<Rightarrow> eeprom \<times> byte" where
  "read_byte e address data =
     (if m_errnum e \<noteq> EEPROM_NoError then (e, data)
      else if \<not> checkAddress e address then (e\<lparr>m_errnum := EEPROM_OutOfRange\<rparr>, data)
      else
        let (page_block, a) = compute_page_block e address;
            addr = device_address e page_block;
            cmd = address_bytes (address_len e) a;
            (ack, bus) = i2c_write (m_i2c e) addr cmd True
        in if ack \<noteq> 0 then (e\<lparr>m_i2c := bus, m_errnum := EEPROM_I2cError\<rparr>, data)
           else
             let (ack2, rx, bus2) = i2c_read bus addr 1
             in if ack2 \<noteq> 0 then (e\<lparr>m_i2c := bus2, m_errnum := EEPROM_I2cError\<rparr>, data)
                else (e\<lparr>m_i2c := bus2\<rparr>, (case rx of [] \<Rightarrow> data | x # _ \<Rightarrow> x)))"

definition read_array :: "eeprom \<Rightarrow> nat \<Rightarrow> byte list \<Rightarrow> nat \<Rightarrow> eeprom \<times> byte list" where
  "read_array e address data size' =
     (if m_errnum e \<noteq> EEPROM_NoError then (e, data)
      else if \<not> checkAddress e address then (e\<lparr>m_errnum := EEPROM_OutOfRange\<rparr>, data)
      else if \<not> checkAddress e (u32 (address + size' + 4294967295))
        then (e\<lparr>m_errnum := EEPROM_OutOfRange\<rparr>, data)
      else
        let (page_block, a) = compute_page_block e address;
            addr = device_address e page_block;
            cmd = address_bytes (address_len e) a;
            (ack, bus) = i2c_write (m_i2c e) addr cmd True
        in if ack \<noteq> 0 then (e\<lparr>m_i2c := bus, m_errnum := EEPROM_I2cError\<rparr>, data)
           else
             let (ack2, rx, bus2) = i2c_read bus addr size'
             in if ack2 \<noteq> 0 then (e\<lparr>m_i2c := bus2, m_errnum := EEPROM_I2cError\<rparr>, data)
                else (e\<lparr>m_i2c := bus2\<rparr>, rx @ drop size' data))"

definition read_current :: "eeprom \<Rightarrow> byte \<Rightarrow> eeprom \<times> byte" where
  "read_current e data =
     (if m_errnum e \<noteq> EEPROM_NoError then (e, data)
      else
        let addr = EEPROM_Address OR m_address e;
            (ack, rx, bus) = i2c_read (m_i2c e) addr 1
        in if ack \<noteq> 0 then (e\<lparr>m_i2c := bus, m_errnum := EEPROM_I2cError\<rparr>, data)
           else (e\<lparr>m_i2c := bus\<rparr>, (case rx of [] \<Rightarrow> data | x # _ \<Rightarrow> x)))"

text \<open>
  The scalar readers read into a local buffer \<open>cmd\<close>, which the source does not
  initialise (the argument \<open>cmd\<close> is what it holds), and copy it into the result with
  \<open>memcpy\<close>, also when the inner read failed. A scalar is the list of its bytes in the
  host's order.
\<close>

definition read_scalar :: "nat \<Rightarrow> eeprom \<Rightarrow> byte list \<Rightarrow> nat \<Rightarrow> byte list \<Rightarrow> eeprom \<times> byte list" where
  "read_scalar width e cmd address data =
     (if m_errnum e \<noteq> EEPROM_NoError then (e, data)
      else if \<not> checkAddress e (u32 (address + (width - 1)))
        then (e\<lparr>m_errnum := EEPROM_OutOfRange\<rparr>, data)
      else let (e', cmd') = read_array e address cmd width in (e', take width cmd'))"

definition read_int16 :: "eeprom \<Rightarrow> byte list \<Rightarrow> nat \<Rightarrow> byte list \<Rightarrow> eeprom \<times> byte list" where
  "read_int16 = read_scalar 2"

definition read_int32 :: "eeprom \<Rightarrow> byte list \<Rightarrow> nat \<Rightarrow> byte list \<Rightarrow> eeprom \<times> byte list" where
  "read_int32 = read_scalar 4"

definition read_float :: "eeprom \<Rightarrow> byte list \<Rightarrow> nat \<Rightarrow> byte list \<Rightarrow> eeprom \<times> byte list" where
  "read_float = read_scalar 4"

text \<open>
  \<open>read(address, void *data, size)\<close>. The argument \<open>cmd\<close> is what \<open>malloc(size)\<close>
  returns: \<open>None\<close> is the null pointer, \<open>Some c\<close> a block that holds the bytes \<open>c\<close>,
  which nothing has initialised. The block is copied into \<open>data\<close> with \<open>memcpy\<close> also
  when the inner read failed and left it as it was.
\<close>

definition read_raw :: "eeprom \<Rightarrow> byte list option \<Rightarrow> nat \<Rightarrow> byte list \<Rightarrow> nat \<Rightarrow> eeprom \<times> byte list" where
  "read_raw e cmd address data size' =
     (if m_errnum e \<noteq> EEPROM_NoError then (e, data)
      else if \<not> checkAddress e (u32 (address + size' + 4294967295))
        then (e\<lparr>m_errnum := EEPROM_OutOfRange\<rparr>, data)
      else case cmd of
             None \<Rightarrow> (e\<lparr>m_errnum := EEPROM_MallocError\<rparr>, data)
           | Some c \<Rightarrow>
               let (e', c') = read_array e address c size'
               in (e', take size' c' @ drop size' data))"

subsection \<open>Writing\<close>

definition write_byte :: "eeprom \<Rightarrow> nat \<Rightarrow> byte \<Rightarrow> eeprom option" where
  "write_byte e address data =
     (if m_errnum e \<noteq> EEPROM_NoError then Some e
      else if \<not> checkAddress e address then Some (e\<lparr>m_errnum := EEPROM_OutOfRange\<rparr>)
      else
        let (page_block, a) = compute_page_block e address;
            addr = device_address e page_block;
            cmd = address_bytes (address_len e) a @ [data];
            (ack, bus) = i2c_write (m_i2c e) addr cmd False
        in if ack \<noteq> 0 then Some (e\<lparr>m_i2c := bus, m_errnum := EEPROM_I2cError\<rparr>)
           else ready (e\<lparr>m_i2c := bus\<rparr>))"

text \<open>
  The page write. Its buffer \<open>cmd\<close> is a local array of \<open>MAX_PAGE_SIZE + 2\<close> bytes that
  the source does not initialise; it is a function from indices to bytes here, and the
  argument \<open>cmd0\<close> of \<open>write_array\<close> is what it holds on entry.

  The member \<open>_page_write\<close> is declared in the header. It holds 256 for an \<open>M24M02\<close>,
  so it has more than 8 bits; it is taken to be of a type that the integer promotions
  turn into \<open>int\<close>, so that \<open>bytes_to_write < _page_write\<close> compares signed numbers.

  A round that writes less than a whole page first reads the page from the chip into
  the buffer, behind the word address: \<open>read(address - page_offset, cmd + len,
  _page_write)\<close>. The buffer is an array of \<open>uint8_t\<close>, and a \<open>uint8_t *\<close> converts to
  \<open>void *\<close> but not to \<open>int8_t *\<close>: the call is a call of \<open>read(uint32_t, void *,
  uint32_t)\<close>, here \<open>read_raw\<close>, which allocates a block of \<open>_page_write\<close> bytes, records
  \<open>EEPROM_MallocError\<close> when there is none, and copies the block into the buffer
  whatever the inner read did. The argument \<open>block\<close> of \<open>write_page\<close> is what \<open>malloc\<close>
  returns in this round; the argument \<open>mallocs\<close> of \<open>write_array\<close> gives it for each
  round, by the value of the loop counter \<open>i\<close>. The round does not look at the error
  state after the read: it sends the page in any case.

  The inner loop copies the payload into the page. Its counter \<open>j\<close> is a \<open>uint8_t\<close>:
  it wraps from 255 to 0, and the loop is a partial function. The payload is a list;
  \<open>data ! k\<close> beyond its end is an unspecified byte, as a read beyond the caller's
  buffer is.
\<close>

partial_function (option) splice_loop ::
  "nat \<Rightarrow> int \<Rightarrow> nat \<Rightarrow> byte list \<Rightarrow> nat \<Rightarrow> nat \<Rightarrow> (nat \<Rightarrow> byte) \<Rightarrow> (nat \<Rightarrow> byte) option" where
  "splice_loop room bytes_to_write base data written_cnt j cmd =
     (if j < room \<and> int j < bytes_to_write
      then splice_loop room bytes_to_write base data written_cnt ((j + 1) mod 256)
             (cmd(j + base := data ! (written_cnt + j)))
      else Some cmd)"

declare splice_loop.simps [code]

text \<open>
  One round of the outer loop. The state is the object, the buffer, \<open>address\<close>,
  \<open>written_cnt\<close> and \<open>bytes_to_write\<close>; the flag of the result says that the round ended
  in \<open>return\<close>.
\<close>

type_synonym page_state = "eeprom \<times> (nat \<Rightarrow> byte) \<times> nat \<times> nat \<times> int"

definition write_page ::
  "byte list option \<Rightarrow> nat \<Rightarrow> byte list \<Rightarrow> nat \<Rightarrow> page_state \<Rightarrow> (bool \<times> page_state) option" where
  "write_page block start_address data length' s =
     (let (e, cmd, address, written_cnt, bytes_to_write) = s;
          pw = m_page_write e;
          (page_block, a) = compute_page_block e address;
          addr = device_address e page_block;
          len = address_len e;
          page_offset = a mod pw;
          cmd1 = store_bytes cmd 0 (address_bytes len (a - page_offset));
          (e1, cmd2) =
            (if page_offset \<noteq> 0 \<or> bytes_to_write < int pw
             then let (e', buf) = read_raw e block (a - page_offset) (map cmd1 [len ..< len + pw]) pw
                  in (e', store_bytes cmd1 len buf)
             else (e, cmd1))
      in case splice_loop (pw - page_offset) bytes_to_write (page_offset + len) data written_cnt 0 cmd2 of
           None \<Rightarrow> None
         | Some cmd3 \<Rightarrow>
             let (ack, bus) = i2c_write (m_i2c e1) addr (map cmd3 [0 ..< pw + len]) False
             in if ack \<noteq> 0
                then Some (True, (e1\<lparr>m_i2c := bus, m_errnum := EEPROM_I2cError\<rparr>,
                                  cmd3, address, written_cnt, bytes_to_write))
                else (case ready (e1\<lparr>m_i2c := bus\<rparr>) of
                        None \<Rightarrow> None
                      | Some e2 \<Rightarrow>
                          let wc = u32 (written_cnt + (pw - page_offset))
                          in Some (False, (e2, cmd3, u32 (start_address + wc), wc,
                                           to_int32 (length' + 4294967296 - wc)))))"

text \<open>
  The outer loop, \<open>for (i = 0; i < blocs; i++)\<close>, runs \<open>blocs\<close> rounds unless a round
  returns; \<open>n\<close> is the number of rounds left.
\<close>

fun write_pages ::
  "nat \<Rightarrow> (nat \<Rightarrow> byte list option) \<Rightarrow> nat \<Rightarrow> nat \<Rightarrow> byte list \<Rightarrow> nat \<Rightarrow> page_state \<Rightarrow> eeprom option" where
  "write_pages 0 mallocs i start_address data length' s = Some (fst s)"
| "write_pages (Suc n) mallocs i start_address data length' s =
     (case write_page (mallocs i) start_address data length' s of
        None \<Rightarrow> None
      | Some (returned, s') \<Rightarrow>
          if returned then Some (fst s')
          else write_pages n mallocs (i + 1) start_address data length' s')"

text \<open>
  The number of rounds: \<open>offset\<close>, \<open>blocs\<close> (a \<open>uint8_t\<close>) and \<open>remain\<close> (a \<open>uint16_t\<close>),
  computed before the loop from the address as the caller gave it.
\<close>

definition count_blocs :: "nat \<Rightarrow> nat \<Rightarrow> nat \<Rightarrow> nat" where
  "count_blocs pw address length' =
     (let offset = address mod pw;
          blocs0 = (u32 (length' + offset) div pw) mod 256;
          remain = u32 (u32 (length' + offset) + 4294967296 - blocs0 * pw) mod 65536
      in if remain \<noteq> 0 then (blocs0 + 1) mod 256 else blocs0)"

definition write_array ::
  "eeprom \<Rightarrow> (nat \<Rightarrow> byte) \<Rightarrow> (nat \<Rightarrow> byte list option) \<Rightarrow> nat \<Rightarrow> byte list \<Rightarrow> nat \<Rightarrow> eeprom option" where
  "write_array e cmd0 mallocs address data length' =
     (if m_errnum e \<noteq> EEPROM_NoError then Some e
      else if \<not> checkAddress e address then Some (e\<lparr>m_errnum := EEPROM_OutOfRange\<rparr>)
      else if \<not> checkAddress e (u32 (address + length' + 4294967295))
        then Some (e\<lparr>m_errnum := EEPROM_OutOfRange\<rparr>)
      else write_pages (count_blocs (m_page_write e) address length') mallocs 0 address data length'
             (e, cmd0, address, 0, to_int32 length'))"

text \<open>
  The scalar writers copy the scalar into a local buffer with \<open>memcpy\<close> and call the
  page write; \<open>data\<close> is the scalar as the list of its bytes in the host's order.
\<close>

definition write_scalar ::
  "nat \<Rightarrow> eeprom \<Rightarrow> (nat \<Rightarrow> byte) \<Rightarrow> (nat \<Rightarrow> byte list option) \<Rightarrow> nat \<Rightarrow> byte list \<Rightarrow> eeprom option" where
  "write_scalar width e cmd0 mallocs address data =
     (if m_errnum e \<noteq> EEPROM_NoError then Some e
      else if \<not> checkAddress e (u32 (address + (width - 1)))
        then Some (e\<lparr>m_errnum := EEPROM_OutOfRange\<rparr>)
      else write_array e cmd0 mallocs address (take width data) width)"

definition write_int16 ::
  "eeprom \<Rightarrow> (nat \<Rightarrow> byte) \<Rightarrow> (nat \<Rightarrow> byte list option) \<Rightarrow> nat \<Rightarrow> byte list \<Rightarrow> eeprom option" where
  "write_int16 = write_scalar 2"

definition write_int32 ::
  "eeprom \<Rightarrow> (nat \<Rightarrow> byte) \<Rightarrow> (nat \<Rightarrow> byte list option) \<Rightarrow> nat \<Rightarrow> byte list \<Rightarrow> eeprom option" where
  "write_int32 = write_scalar 4"

definition write_float ::
  "eeprom \<Rightarrow> (nat \<Rightarrow> byte) \<Rightarrow> (nat \<Rightarrow> byte list option) \<Rightarrow> nat \<Rightarrow> byte list \<Rightarrow> eeprom option" where
  "write_float = write_scalar 4"

text \<open>
  \<open>write(address, void *data, size)\<close>; \<open>malloc_ok\<close> says that its own \<open>malloc\<close> gave a
  block, \<open>mallocs\<close> is for the page write it calls.
\<close>

definition write_raw ::
  "eeprom \<Rightarrow> (nat \<Rightarrow> byte) \<Rightarrow> bool \<Rightarrow> (nat \<Rightarrow> byte list option) \<Rightarrow> nat \<Rightarrow> byte list \<Rightarrow> nat \<Rightarrow> eeprom option" where
  "write_raw e cmd0 malloc_ok mallocs address data size' =
     (if m_errnum e \<noteq> EEPROM_NoError then Some e
      else if \<not> checkAddress e (u32 (address + size' + 4294967295))
        then Some (e\<lparr>m_errnum := EEPROM_OutOfRange\<rparr>)
      else if \<not> malloc_ok then Some (e\<lparr>m_errnum := EEPROM_MallocError\<rparr>)
      else write_array e cmd0 mallocs address (take size' data) size')"

text \<open>
  \<open>clear()\<close>: \<open>for (i = 0; i < _size / 4; i++) write(i * 4, (int32_t) 0)\<close>; \<open>mallocs i\<close>
  is for the page write of the call with counter \<open>i\<close>.
\<close>

fun clear_loop ::
  "nat \<Rightarrow> nat \<Rightarrow> (nat \<Rightarrow> byte) \<Rightarrow> (nat \<Rightarrow> nat \<Rightarrow> byte list option) \<Rightarrow> eeprom \<Rightarrow> eeprom option" where
  "clear_loop 0 i cmd0 mallocs e = Some e"
| "clear_loop (Suc n) i cmd0 mallocs e =
     (case write_int32 e cmd0 (mallocs i) (u32 (i * 4)) [0, 0, 0, 0] of
        None \<Rightarrow> None
      | Some e' \<Rightarrow> clear_loop n (i + 1) cmd0 mallocs e')"

definition clear ::
  "eeprom \<Rightarrow> (nat \<Rightarrow> byte) \<Rightarrow> (nat \<Rightarrow> nat \<Rightarrow> byte list option) \<Rightarrow> eeprom option" where
  "clear e cmd0 mallocs = clear_loop (m_size e div 4) 0 cmd0 mallocs e"

subsection \<open>Notions used by the properties\<close>

text \<open>The members that only the constructor writes.\<close>

definition static :: "eeprom \<Rightarrow> 8 word \<times> TypeEeprom \<times> nat \<times> nat \<times> nat" where
  "static e = (m_address e, m_type e, m_page_write e, m_page_block_number e, m_size e)"

text \<open>
  \<open>calls e e'\<close>: the object \<open>e'\<close> is what \<open>e\<close> has become after some sequence of calls
  of the public operations, each of which returned.
\<close>

inductive calls :: "eeprom \<Rightarrow> eeprom \<Rightarrow> bool" for e :: eeprom where
  no_call: "calls e e"
| call_write_byte:
    "calls e e1 \<Longrightarrow> write_byte e1 address b = Some e2 \<Longrightarrow> calls e e2"
| call_write_array:
    "calls e e1 \<Longrightarrow> write_array e1 cmd0 mallocs address data length' = Some e2 \<Longrightarrow> calls e e2"
| call_write_int16:
    "calls e e1 \<Longrightarrow> write_int16 e1 cmd0 mallocs address data = Some e2 \<Longrightarrow> calls e e2"
| call_write_int32:
    "calls e e1 \<Longrightarrow> write_int32 e1 cmd0 mallocs address data = Some e2 \<Longrightarrow> calls e e2"
| call_write_float:
    "calls e e1 \<Longrightarrow> write_float e1 cmd0 mallocs address data = Some e2 \<Longrightarrow> calls e e2"
| call_write_raw:
    "calls e e1 \<Longrightarrow> write_raw e1 cmd0 malloc_ok mallocs address data size' = Some e2
     \<Longrightarrow> calls e e2"
| call_read_byte:
    "calls e e1 \<Longrightarrow> calls e (fst (read_byte e1 address b))"
| call_read_array:
    "calls e e1 \<Longrightarrow> calls e (fst (read_array e1 address data size'))"
| call_read_current:
    "calls e e1 \<Longrightarrow> calls e (fst (read_current e1 b))"
| call_read_int16:
    "calls e e1 \<Longrightarrow> calls e (fst (read_int16 e1 cmd address data))"
| call_read_int32:
    "calls e e1 \<Longrightarrow> calls e (fst (read_int32 e1 cmd address data))"
| call_read_float:
    "calls e e1 \<Longrightarrow> calls e (fst (read_float e1 cmd address data))"
| call_read_raw:
    "calls e e1 \<Longrightarrow> calls e (fst (read_raw e1 block address data size'))"
| call_clear:
    "calls e e1 \<Longrightarrow> clear e1 cmd0 mallocs = Some e2 \<Longrightarrow> calls e e2"

text \<open>
  A healthy device: no error recorded, and a chip that is there, not in a write cycle,
  and that decodes as many bytes of word address as the driver sends.
\<close>

definition healthy :: "eeprom \<Rightarrow> bool" where
  "healthy e = (m_errnum e = EEPROM_NoError \<and> present (m_i2c e) \<and> busy (m_i2c e) = 0
                \<and> alen (m_i2c e) = address_len e)"

text \<open>
  \<open>chip al m c\<close> is an idle chip that decodes \<open>al\<close> bytes of word address, holds \<open>m\<close>
  and needs \<open>c\<close> polls after a write.
\<close>

definition chip :: "nat \<Rightarrow> (nat \<Rightarrow> byte) \<Rightarrow> nat \<Rightarrow> i2c_bus" where
  "chip al m c = \<lparr>mem = m, ptr = 0, alen = al, busy = 0, cycle = c, present = True, log = []\<rparr>"

text \<open>
  The largest chip-select value the constructor accepts, for the variants it checks
  (it does not check a \<open>T24C16\<close>).
\<close>

fun chip_select_max :: "TypeEeprom \<Rightarrow> 8 word" where
  "chip_select_max T24C1024 = 3"
| "chip_select_max T24C1025 = 3"
| "chip_select_max M24M02 = 1"
| "chip_select_max t = 7"

text \<open>
  The write transactions of a log that carry data after the \<open>al\<close> bytes of word
  address: the page writes (and byte writes).
\<close>

definition page_writes :: "nat \<Rightarrow> xfer list \<Rightarrow> xfer list" where
  "page_writes al l =
     filter (\<lambda>x. case x of Xfer_Write a bs r \<Rightarrow> al < length bs | Xfer_Read a n \<Rightarrow> False) l"

text \<open>
  A memory that holds \<open>0x11\<close> in the cells below \<open>20736\<close> and \<open>0x22\<close> from there on.
  On a chip with one byte of word address, cell \<open>20480\<close> is word 0 of device address
  \<open>0xA0\<close> and cell \<open>20736\<close> is word 0 of device address \<open>0xA2\<close>: the first block of a
  \<open>T24C04\<close> with chip-select 0 holds \<open>0x11\<close>, its second block \<open>0x22\<close>.
\<close>

definition two_blocks :: "nat \<Rightarrow> byte" where
  "two_blocks c = (if c < 20736 then 0x11 else 0x22)"

section \<open>Properties\<close>

subsection \<open>The bounds check\<close>

text \<open>
  Claim C3. For every variant, \<open>checkAddress\<close> accepts a logical address exactly when
  it is strictly below the effective capacity: the nominal capacity (the value of the
  enumerator) minus one for \<open>T24C1025\<close> and \<open>M24M02\<close>, the nominal capacity itself for
  every other variant.
\<close>

theorem checkAddress_effective_capacity:
  "checkAddress e address =
     (address < (if m_type e = T24C1025 \<or> m_type e = M24M02
                 then TypeEeprom_value (m_type e) - 1
                 else TypeEeprom_value (m_type e)))"
  by (cases "m_type e") (auto simp: checkAddress_def)

subsection \<open>The constructor's check of the chip-select value\<close>

text \<open>
  Claim C8, as stated, fails for a \<open>T24C16\<close>: the claim counts it among the variants
  that reject a chip-select value above 7, but the constructor does not look at the
  value for this variant (the chip has no address pins; \<open>_address\<close> is set to 0). With
  the chip-select value 8 no error is recorded.
\<close>

theorem constructor_chip_select_counterexample:
  "(8 :: 8 word) > 7 \<and> m_errnum (EEPROM (chip 1 (\<lambda>c. 0) 0) 8 T24C16) = EEPROM_NoError"
  by (simp add: EEPROM_def)

text \<open>
  Claim C8, amended. Construction records \<open>EEPROM_BadAddress\<close> exactly when the variant
  is not \<open>T24C16\<close> and the chip-select value exceeds the variant's largest valid value
  (7 for \<open>T24C01\<close> to \<open>T24C512\<close>, 3 for \<open>T24C1024\<close> and \<open>T24C1025\<close>, 1 for \<open>M24M02\<close>);
  otherwise, and for every chip-select value of a \<open>T24C16\<close>, the device starts with no
  error.
\<close>

theorem constructor_chip_select:
  "m_errnum (EEPROM bus address type) =
     (if type \<noteq> T24C16 \<and> address > chip_select_max type
      then EEPROM_BadAddress else EEPROM_NoError)"
  by (cases type) (simp_all add: EEPROM_def)

subsection \<open>Only the constructor writes the static members\<close>

lemma static_errnum [simp]: "static (e\<lparr>m_errnum := x\<rparr>) = static e"
  by (simp add: static_def)

lemma static_i2c [simp]: "static (e\<lparr>m_i2c := b\<rparr>) = static e"
  by (simp add: static_def)

lemma read_array_static: "static (fst (read_array e a d n)) = static e"
  by (simp add: read_array_def Let_def split: prod.splits)

lemma read_array_staticD: "read_array e a d n = (e', d') \<Longrightarrow> static e' = static e"
  using read_array_static [of e a d n] by simp

lemma read_byte_static: "static (fst (read_byte e a d)) = static e"
  by (simp add: read_byte_def Let_def split: prod.splits)

lemma read_current_static: "static (fst (read_current e d)) = static e"
  by (simp add: read_current_def Let_def split: prod.splits)

lemma read_scalar_static: "static (fst (read_scalar w e c a d)) = static e"
proof (cases "read_array e a c w")
  case (Pair e' c')
  with read_array_static [of e a c w] show ?thesis
    by (simp add: read_scalar_def)
qed

lemma read_raw_static: "static (fst (read_raw e c a d n)) = static e"
proof (cases c)
  case None
  then show ?thesis by (simp add: read_raw_def)
next
  case (Some c')
  show ?thesis
  proof (cases "read_array e a c' n")
    case (Pair e' c'')
    with Some read_array_static [of e a c' n] show ?thesis
      by (simp add: read_raw_def)
  qed
qed

lemma read_raw_staticD: "read_raw e c a d n = (e', d') \<Longrightarrow> static e' = static e"
  using read_raw_static [of e c a d n] by simp

lemma ready_static: "ready e = Some e' \<Longrightarrow> static e' = static e"
  by (auto simp: ready_def split: if_splits option.splits)

lemma write_byte_static: "write_byte e a d = Some e' \<Longrightarrow> static e' = static e"
  by (auto simp: write_byte_def Let_def split: if_splits prod.splits dest!: ready_static)

lemma write_page_static:
  assumes "write_page blk st d l s = Some (r, s')"
  shows "static (fst s') = static (fst s)"
proof -
  obtain e cmd a wc btw where s: "s = (e, cmd, a, wc, btw)"
    by (cases s) auto
  show ?thesis
    using assms unfolding s write_page_def Let_def
    by (auto split: if_splits prod.splits option.splits
             dest!: ready_static read_raw_staticD)
qed

lemma write_pages_static:
  "write_pages n ms i st d l s = Some e' \<Longrightarrow> static e' = static (fst s)"
proof (induction n arbitrary: i s)
  case 0
  then show ?case by simp
next
  case (Suc n)
  then show ?case
    by (auto split: option.splits if_splits dest: write_page_static)
qed

lemma write_array_static: "write_array e c ms a d l = Some e' \<Longrightarrow> static e' = static e"
  by (auto simp: write_array_def Let_def split: if_splits dest: write_pages_static)

lemma write_scalar_static: "write_scalar w e c ms a d = Some e' \<Longrightarrow> static e' = static e"
  by (auto simp: write_scalar_def split: if_splits dest: write_array_static)

lemma write_raw_static: "write_raw e c m ms a d n = Some e' \<Longrightarrow> static e' = static e"
  by (auto simp: write_raw_def split: if_splits dest: write_array_static)

lemma clear_loop_static: "clear_loop n i c ms e = Some e' \<Longrightarrow> static e' = static e"
proof (induction n arbitrary: i e)
  case 0
  then show ?case by simp
next
  case (Suc n)
  then show ?case
    by (auto simp: write_int32_def split: option.splits dest: write_scalar_static)
qed

lemma calls_static: "calls e e' \<Longrightarrow> static e' = static e"
proof (induction rule: calls.induct)
  case no_call
  show ?case by simp
next
  case (call_clear e1 cmd0 mallocs e2)
  then show ?case by (auto simp: clear_def dest: clear_loop_static)
qed (auto simp: write_int16_def write_int32_def write_float_def
       read_int16_def read_int32_def read_float_def
       read_byte_static read_array_static read_current_static read_scalar_static
       read_raw_static
     dest: write_byte_static write_array_static write_scalar_static write_raw_static)

subsection \<open>Evaluating the bus\<close>

lemma store_bytes_Nil [simp]: "store_bytes f p [] = f"
  by (rule ext) (auto simp: store_bytes_def)

lemma address_bytes_1: "address_bytes (Suc 0) a = [of_nat a]"
  by (simp add: address_bytes_def)

lemma address_bytes_2: "address_bytes 2 a = [of_nat (a div 256), of_nat a]"
  by (simp add: address_bytes_def upt_conv_Cons)

lemma word_address_1: "word_address [b] = unat b"
  by (simp add: word_address_def)

lemma word_address_2: "word_address [h, l] = unat h * 256 + unat l"
  by (simp add: word_address_def)

lemmas eval_defs = EEPROM_def chip_def checkAddress_def compute_page_block_def
  device_address_def EEPROM_Address_def address_len_def address_bytes_1 address_bytes_2
  i2c_write_def i2c_read_def Let_def cell_def word_address_1 word_address_2 u32_def

lemma read_byte_example:
  "read_byte (EEPROM (chip 2 (\<lambda>c. 0) 0) 0 T24C1025) 5 1
     = (EEPROM (chip 2 (\<lambda>c. 0) 0) 0 T24C1025
          \<lparr>m_i2c := (chip 2 (\<lambda>c. 0) 0)
             \<lparr>ptr := 5242886, log := [Xfer_Write 0xA0 [0, 5] True, Xfer_Read 0xA0 1]\<rparr>\<rparr>, 0)"
  by (simp add: read_byte_def eval_defs)

subsection \<open>The size\<close>

text \<open>
  Claim C10. \<open>getSize\<close> returns the nominal capacity of the configured variant (the
  value of its enumerator) for every variant except \<open>T24C1025\<close>, for which it returns
  the capacity of \<open>T24C1024\<close>; the size is fixed at construction: it is the same after
  any sequence of calls of the public operations.
\<close>

theorem getSize_fixed_at_construction:
  assumes "calls (EEPROM bus address type) e"
  shows "getSize e = (if type = T24C1025 then TypeEeprom_value T24C1024
                      else TypeEeprom_value type)"
proof -
  have "static e = static (EEPROM bus address type)"
    using assms by (rule calls_static)
  then have "m_size e = m_size (EEPROM bus address type)"
    by (simp add: static_def)
  then show ?thesis
    by (cases type) (simp_all add: getSize_def EEPROM_def)
qed

theorem getSize_fixed_at_construction_witness:
  "calls (EEPROM (chip 2 (\<lambda>c. 0) 0) 0 T24C1025)
         (fst (read_byte (EEPROM (chip 2 (\<lambda>c. 0) 0) 0 T24C1025) 5 1))
   \<and> getSize (fst (read_byte (EEPROM (chip 2 (\<lambda>c. 0) 0) 0 T24C1025) 5 1)) = 131072
   \<and> log (m_i2c (fst (read_byte (EEPROM (chip 2 (\<lambda>c. 0) 0) 0 T24C1025) 5 1)))
        = [Xfer_Write 0xA0 [0, 5] True, Xfer_Read 0xA0 1]"
proof -
  have c: "calls (EEPROM (chip 2 (\<lambda>c. 0) 0) 0 T24C1025)
             (fst (read_byte (EEPROM (chip 2 (\<lambda>c. 0) 0) 0 T24C1025) 5 1))"
    by (rule call_read_byte [OF no_call])
  from getSize_fixed_at_construction [OF c] c show ?thesis
    by (simp add: read_byte_example)
qed

subsection \<open>The sticky error\<close>

lemma clear_loop_faulted:
  "m_errnum e \<noteq> EEPROM_NoError \<Longrightarrow> clear_loop n i cmd0 mallocs e = Some e"
  by (induction n arbitrary: i) (simp_all add: write_int32_def write_scalar_def)

lemma faulted_ops:
  assumes "m_errnum e \<noteq> EEPROM_NoError"
  shows "write_byte e address b = Some e"
    and "write_array e cmd0 mallocs address data n = Some e"
    and "write_scalar w e cmd0 mallocs address data = Some e"
    and "write_raw e cmd0 ok mallocs address data n = Some e"
    and "clear e cmd0 mallocs' = Some e"
    and "read_byte e address b = (e, b)"
    and "read_array e address data n = (e, data)"
    and "read_current e b = (e, b)"
    and "read_scalar w e cmd address data = (e, data)"
    and "read_raw e block address data n = (e, data)"
    and "ready e = Some e"
  using assms
  by (simp_all add: write_byte_def write_array_def write_scalar_def write_raw_def clear_def
        clear_loop_faulted read_byte_def read_array_def read_current_def read_scalar_def
        read_raw_def ready_def)




subsection \<open>Address resolution\<close>

lemma unat_block: "n < 256 \<Longrightarrow> unat (of_nat n :: 8 word) = n"
  by (simp add: unat_of_nat)

lemma checkAddress_bound:
  "checkAddress e address \<Longrightarrow> address < TypeEeprom_value (m_type e)"
  by (cases "m_type e") (auto simp: checkAddress_def)

lemma TypeEeprom_value_le: "TypeEeprom_value t \<le> 262144"
  by (cases t) simp_all

text \<open>
  Claim C2, as stated, fails for a \<open>T24C1024\<close>. Its page size is 128, neither below 32
  nor above 128, so the claim gives block 0 and the address unchanged; the source
  decides by the type (\<open>_type > T24C512\<close>) and divides by 65535: the in-range address
  70000 resolves to block 1 and in-block address 4465.
\<close>

theorem resolution_counterexample:
  "m_page_write (EEPROM (chip 2 (\<lambda>c. 0) 0) 0 T24C1024) = 128
   \<and> checkAddress (EEPROM (chip 2 (\<lambda>c. 0) 0) 0 T24C1024) 70000
   \<and> compute_page_block (EEPROM (chip 2 (\<lambda>c. 0) 0) 0 T24C1024) 70000 = (1, 4465)"
  by (simp add: EEPROM_def checkAddress_def compute_page_block_def)

text \<open>
  Claim C2, amended. For every variant and every in-range logical address: block =
  address / 255 and in-block address = address % 255 when the page size is below 32
  (the types below \<open>T24C32\<close>); block = address / 65535 and in-block address =
  address % 65535 for the types above \<open>T24C512\<close> (\<open>T24C1024\<close>, \<open>T24C1025\<close> and
  \<open>M24M02\<close>, whatever their page size); block 0 and the address unchanged otherwise; the
  device address is \<open>EEPROM_Address\<close> OR-ed with the configured address and with
  (block << 1), and it is the address of the transaction that a read puts on the bus.
\<close>

theorem address_resolution:
  assumes "checkAddress (EEPROM bus cs type) address"
    and "compute_page_block (EEPROM bus cs type) address = (page_block, a)"
  shows "(m_page_write (EEPROM bus cs type) < 32 \<longrightarrow>
            unat page_block = address div 255 \<and> a = address mod 255)
       \<and> (TypeEeprom_value type > TypeEeprom_value T24C512 \<longrightarrow>
            unat page_block = address div 65535 \<and> a = address mod 65535)
       \<and> (32 \<le> m_page_write (EEPROM bus cs type)
            \<and> TypeEeprom_value type \<le> TypeEeprom_value T24C512 \<longrightarrow>
            page_block = 0 \<and> a = address)
       \<and> device_address (EEPROM bus cs type) page_block
            = EEPROM_Address OR m_address (EEPROM bus cs type) OR push_bit 1 page_block
       \<and> (m_errnum (EEPROM bus cs type) = EEPROM_NoError \<longrightarrow>
            take 1 (drop (length (log bus))
                      (log (m_i2c (fst (read_byte (EEPROM bus cs type) address b)))))
            = [Xfer_Write (EEPROM_Address OR m_address (EEPROM bus cs type) OR push_bit 1 page_block)
                 (address_bytes (address_len (EEPROM bus cs type)) a) True])"
proof -
  let ?e = "EEPROM bus cs type"
  have t: "m_type ?e = type" and b: "m_i2c ?e = bus"
    by (cases type; simp add: EEPROM_def)+
  have small: "m_page_write ?e < 32 \<longleftrightarrow> TypeEeprom_value type < TypeEeprom_value T24C32"
    by (cases type) (simp_all add: EEPROM_def)
  have lt: "address < TypeEeprom_value type"
    using assms(1) checkAddress_bound [of ?e address] by (simp add: t)
  have d255: "address div 255 < 256" if "TypeEeprom_value type < TypeEeprom_value T24C32"
    using that lt by simp
  have d65535: "address div 65535 < 256"
    using lt TypeEeprom_value_le [of type] by simp
  have 1: "m_page_write ?e < 32 \<longrightarrow> unat page_block = address div 255 \<and> a = address mod 255"
    using assms(2) small d255 by (auto simp: compute_page_block_def t unat_block)
  have 2: "TypeEeprom_value type > TypeEeprom_value T24C512 \<longrightarrow>
            unat page_block = address div 65535 \<and> a = address mod 65535"
    using assms(2) d65535 by (auto simp: compute_page_block_def t unat_block split: if_splits)
  have 3: "32 \<le> m_page_write ?e \<and> TypeEeprom_value type \<le> TypeEeprom_value T24C512 \<longrightarrow>
            page_block = 0 \<and> a = address"
    using assms(2) small by (auto simp: compute_page_block_def t split: if_splits)
  have 4: "device_address ?e page_block = EEPROM_Address OR m_address ?e OR push_bit 1 page_block"
    by (simp add: device_address_def)
  have 5: "m_errnum ?e = EEPROM_NoError \<longrightarrow>
            take 1 (drop (length (log bus)) (log (m_i2c (fst (read_byte ?e address b)))))
            = [Xfer_Write (EEPROM_Address OR m_address ?e OR push_bit 1 page_block)
                 (address_bytes (address_len ?e) a) True]"
    using assms
    by (auto simp: read_byte_def Let_def b device_address_def i2c_write_def i2c_read_def
             split: prod.splits if_splits)
  from 1 2 3 4 5 show ?thesis by blast
qed

theorem address_resolution_witness:
  "checkAddress (EEPROM (chip 1 (\<lambda>c. 0) 0) 2 T24C04) 300
   \<and> compute_page_block (EEPROM (chip 1 (\<lambda>c. 0) 0) 2 T24C04) 300 = (1, 45)
   \<and> m_page_write (EEPROM (chip 1 (\<lambda>c. 0) 0) 2 T24C04) = 16
   \<and> unat (1 :: 8 word) = 300 div 255 \<and> (45 :: nat) = 300 mod 255
   \<and> device_address (EEPROM (chip 1 (\<lambda>c. 0) 0) 2 T24C04) 1 = 0xA6
   \<and> take 1 (log (m_i2c (fst (read_byte (EEPROM (chip 1 (\<lambda>c. 0) 0) 2 T24C04) 300 0))))
        = [Xfer_Write 0xA6 [45] True]"
proof -
  have h1: "checkAddress (EEPROM (chip 1 (\<lambda>c. 0) 0) 2 T24C04) 300"
    by (simp add: EEPROM_def checkAddress_def)
  have h2: "compute_page_block (EEPROM (chip 1 (\<lambda>c. 0) 0) 2 T24C04) 300 = (1, 45)"
    by (simp add: EEPROM_def compute_page_block_def)
  have h3: "m_page_write (EEPROM (chip 1 (\<lambda>c. 0) 0) 2 T24C04) = 16"
    and h4: "m_errnum (EEPROM (chip 1 (\<lambda>c. 0) 0) 2 T24C04) = EEPROM_NoError"
    by (simp_all add: EEPROM_def)
  have h5: "m_address (EEPROM bus 2 T24C04) = 4"
    and h6: "address_len (EEPROM bus 2 T24C04) = Suc 0" for bus
    by (simp_all add: EEPROM_def address_len_def)
  have h7: "log (chip al m c) = []" for al m c
    by (simp add: chip_def)
  from address_resolution [OF h1 h2, of 0] h1 h2 h3 h4 show ?thesis
    by (simp add: h5 h6 h7 EEPROM_Address_def address_bytes_1)
qed

subsection \<open>The loops return on a chip that answers\<close>

lemma ready_poll_present:
  "present b \<Longrightarrow> 0 < alen b \<Longrightarrow>
   ready_poll addr b
     = Some (b\<lparr>busy := 0, log := log b @ replicate (Suc (busy b)) (Xfer_Write addr [] False)\<rparr>)"
proof (induction "busy b" arbitrary: b)
  case 0
  then show ?case
    by (subst ready_poll.simps) (simp add: i2c_write_def Let_def)
next
  case (Suc n)
  let ?b' = "b\<lparr>log := log b @ [Xfer_Write addr [] False], busy := n\<rparr>"
  have w: "i2c_write b addr [] False = (1, ?b')"
    using Suc.prems Suc.hyps(2) [symmetric] by (simp add: i2c_write_def Let_def)
  have "ready_poll addr ?b'
          = Some (?b'\<lparr>busy := 0, log := log ?b' @ replicate (Suc (busy ?b')) (Xfer_Write addr [] False)\<rparr>)"
    using Suc.prems by (intro Suc.hyps(1)) simp_all
  then show ?case
    using Suc.hyps(2) [symmetric]
    by (subst ready_poll.simps) (simp add: w replicate_append_same)
qed

lemma splice_loop_closed:
  assumes m: "m = min room (nat bytes_to_write)" and le: "m \<le> 255"
  shows "j \<le> m \<Longrightarrow>
         splice_loop room bytes_to_write base data written_cnt j cmd
           = Some (\<lambda>k. if base + j \<le> k \<and> k < base + m
                        then data ! (written_cnt + (k - base)) else cmd k)"
proof (induction "m - j" arbitrary: j cmd)
  case 0
  then have jm: "j = m" by linarith
  have "\<not> (j < room \<and> int j < bytes_to_write)"
    unfolding jm m by auto
  then show ?case
    unfolding jm by (subst splice_loop.simps) (auto simp: fun_eq_iff)
next
  case (Suc d)
  then have lt: "j < m" by linarith
  have c: "j < room \<and> int j < bytes_to_write"
    using lt unfolding m by auto
  have j: "(j + 1) mod 256 = j + 1"
    using lt le by simp
  have "splice_loop room bytes_to_write base data written_cnt (j + 1)
            (cmd(j + base := data ! (written_cnt + j)))
          = Some (\<lambda>k. if base + (j + 1) \<le> k \<and> k < base + m
                       then data ! (written_cnt + (k - base))
                       else (cmd(j + base := data ! (written_cnt + j))) k)"
    using Suc lt by (intro Suc.hyps(1)) simp_all
  then show ?case
    using c j lt
    by (subst splice_loop.simps) (auto simp: fun_eq_iff)
qed


lemma u32_pred: "0 < n \<Longrightarrow> n \<le> 4294967296 \<Longrightarrow> u32 (n + 4294967295) = n - 1"
  unfolding u32_def by (cases n) (simp_all add: mod_if)

lemma checkAddress_mono: "checkAddress e a \<Longrightarrow> b \<le> a \<Longrightarrow> checkAddress e b"
  by (cases "m_type e") (auto simp: checkAddress_def)

lemma static_EEPROM:
  assumes "static e = static (EEPROM b0 cs type)"
  shows "m_type e = type"
    and "m_page_write e = m_page_write (EEPROM b0 cs type)"
    and "m_size e = m_size (EEPROM b0 cs type)"
    and "m_address e = m_address (EEPROM b0 cs type)"
  using assms by (cases type; simp add: static_def EEPROM_def)+

lemma page_write_EEPROM:
  "m_page_write (EEPROM b0 cs type)
     = (case type of T24C01 \<Rightarrow> 8 | T24C02 \<Rightarrow> 8 | T24C04 \<Rightarrow> 16 | T24C08 \<Rightarrow> 16 | T24C16 \<Rightarrow> 16
        | T24C32 \<Rightarrow> 32 | T24C64 \<Rightarrow> 32 | T24C128 \<Rightarrow> 64 | T24C256 \<Rightarrow> 64
        | T24C512 \<Rightarrow> 128 | T24C1024 \<Rightarrow> 128 | T24C1025 \<Rightarrow> 128 | M24M02 \<Rightarrow> 256)"
  by (cases type) (simp_all add: EEPROM_def)

lemma align_bound:
  fixes a p c :: nat
  assumes "0 < p" and "p dvd c" and "a < c"
  shows "a - a mod p + p \<le> c"
proof -
  from assms(2) obtain k where k: "c = p * k" ..
  from assms(1,3) have "a div p < k"
    unfolding k by (simp add: div_less_iff_less_mult mult.commute)
  then have "p * (a div p + 1) \<le> p * k"
    by (intro mult_le_mono2) simp
  moreover have "a - a mod p = p * (a div p)"
    by (simp add: minus_mod_eq_mult_div)
  ultimately show ?thesis
    unfolding k by simp
qed

lemma page_in_range:
  assumes st: "static e = static (EEPROM b0 cs type)"
    and chk: "checkAddress e address"
    and cpb: "compute_page_block e address = (pb, a)"
  shows "checkAddress e (a - a mod m_page_write e)
       \<and> checkAddress e (a - a mod m_page_write e + m_page_write e - 1)"
proof -
  note se = static_EEPROM [OF st]
  define c :: nat where
    "c = (case type of T24C01 \<Rightarrow> 128 | T24C02 \<Rightarrow> 256 | T24C04 \<Rightarrow> 256 | T24C08 \<Rightarrow> 256
          | T24C16 \<Rightarrow> 256 | T24C32 \<Rightarrow> 4096 | T24C64 \<Rightarrow> 8192 | T24C128 \<Rightarrow> 16384
          | T24C256 \<Rightarrow> 32768 | _ \<Rightarrow> 65536)"
  have pw: "0 < m_page_write e" and dvd: "m_page_write e dvd c"
    by (cases type; simp add: se(2) page_write_EEPROM c_def)+
  have a: "a < c"
    using chk cpb
    by (cases type)
       (auto simp: se(1) checkAddress_def compute_page_block_def c_def split: if_splits
             intro: less_trans [OF mod_less_divisor])
  have ok: "checkAddress e x" if "x < c" for x
    using that by (cases type) (auto simp: se(1) checkAddress_def c_def)
  have le: "a - a mod m_page_write e + m_page_write e \<le> c"
    using pw dvd a by (rule align_bound)
  have "a - a mod m_page_write e < c"
    and "a - a mod m_page_write e + m_page_write e - 1 < c"
    using le pw by linarith+
  then show ?thesis
    by (intro conjI ok)
qed


lemma address_len_pos: "0 < address_len e" and address_len_le: "address_len e \<le> 2"
  by (simp_all add: address_len_def)

lemma length_address_bytes [simp]: "length (address_bytes n a) = n"
  by (simp add: address_bytes_def)

lemma address_len_static: "static e' = static e \<Longrightarrow> address_len e' = address_len e"
  by (simp add: static_def address_len_def)

lemma checkAddress_static: "static e' = static e \<Longrightarrow> checkAddress e' = checkAddress e"
  by (rule ext) (simp add: static_def checkAddress_def)

lemma read_array_healthy:
  assumes h: "healthy e" and c1: "checkAddress e x"
    and c2: "checkAddress e (u32 (x + n + 4294967295))"
  shows "healthy (fst (read_array e x d n))"
    and "m_errnum (fst (read_array e x d n)) = EEPROM_NoError"
proof -
  obtain pb a where cpb: "compute_page_block e x = (pb, a)"
    by (cases "compute_page_block e x")
  have al: "address_len e \<noteq> 0"
    by (simp add: address_len_def)
  show "healthy (fst (read_array e x d n))"
    using h c1 c2 al
    by (simp add: read_array_def cpb healthy_def i2c_write_def i2c_read_def Let_def
          address_len_def)
  then show "m_errnum (fst (read_array e x d n)) = EEPROM_NoError"
    by (simp add: healthy_def)
qed

lemma read_raw_healthy:
  assumes h: "healthy e" and c1: "checkAddress e x"
    and c2: "checkAddress e (u32 (x + n + 4294967295))"
  shows "healthy (fst (read_raw e (Some c) x d n))"
proof -
  obtain e' c' where rd: "read_array e x c n = (e', c')"
    by (cases "read_array e x c n")
  from read_array_healthy(1) [OF h c1 c2, of c] rd have "healthy e'"
    by simp
  then show ?thesis
    using h c2 rd by (simp add: read_raw_def healthy_def)
qed

lemma ready_eq:
  assumes "m_errnum e = EEPROM_NoError" and "present (m_i2c e)" and "0 < alen (m_i2c e)"
  shows "ready e = Some (e\<lparr>m_i2c := (m_i2c e)\<lparr>busy := 0,
            log := log (m_i2c e) @ replicate (Suc (busy (m_i2c e)))
                     (Xfer_Write (EEPROM_Address OR m_address e) [] False)\<rparr>\<rparr>)"
  using assms by (simp add: ready_def ready_poll_present)

lemma i2c_write_idle:
  assumes "present b" and "busy b = 0" and "alen b \<le> length bs"
  shows "i2c_write b addr bs r
           = (0, b\<lparr>log := log b @ [Xfer_Write addr bs r],
                   mem := store_bytes (mem b) (cell b addr (word_address (take (alen b) bs)))
                            (drop (alen b) bs),
                   ptr := cell b addr (word_address (take (alen b) bs)) + (length bs - alen b),
                   busy := (if length bs = alen b then 0 else cycle b)\<rparr>)"
  using assms by (auto simp: i2c_write_def Let_def)


lemma write_page_healthy:
  assumes h: "healthy e" and st: "static e = static (EEPROM b0 cs type)"
    and chk: "checkAddress e address"
    and cpb: "compute_page_block e address = (pb, a)"
    and tm: "min (m_page_write e - a mod m_page_write e) (nat btw) \<le> 255"
  shows "\<exists>e' cmd'.
           write_page (Some c) start d l (e, cmd, address, wc, btw)
             = Some (False, (e', cmd',
                  u32 (start + u32 (wc + (m_page_write e - a mod m_page_write e))),
                  u32 (wc + (m_page_write e - a mod m_page_write e)),
                  to_int32 (l + 4294967296 - u32 (wc + (m_page_write e - a mod m_page_write e)))))
           \<and> healthy e' \<and> static e' = static e"
proof -
  let ?pw = "m_page_write e"
  let ?po = "a mod ?pw"
  let ?len = "address_len e"
  let ?cmd1 = "store_bytes cmd 0 (address_bytes ?len (a - ?po))"
  let ?buf = "map ?cmd1 [?len ..< ?len + ?pw]"
  define r where "r = (if ?po \<noteq> 0 \<or> btw < int ?pw
                       then let (e', buf) = read_raw e (Some c) (a - ?po) ?buf ?pw
                            in (e', store_bytes ?cmd1 ?len buf)
                       else (e, ?cmd1))"
  obtain e1 cmd2 where r: "r = (e1, cmd2)"
    by (cases r)
  have pw: "0 < ?pw"
    using static_EEPROM(2) [OF st] by (cases type) (simp_all add: page_write_EEPROM)
  have e1: "healthy e1 \<and> static e1 = static e"
  proof (cases "?po \<noteq> 0 \<or> btw < int ?pw")
    case True
    obtain e' buf where rd: "read_raw e (Some c) (a - ?po) ?buf ?pw = (e', buf)"
      by (cases "read_raw e (Some c) (a - ?po) ?buf ?pw")
    from page_in_range [OF st chk cpb]
    have c1: "checkAddress e (a - ?po)" and c2: "checkAddress e (a - ?po + ?pw - 1)"
      by simp_all
    have n0: "0 < a - ?po + ?pw"
      using pw by linarith
    have n1: "a - ?po + ?pw \<le> 4294967296"
      using checkAddress_bound [OF c2] TypeEeprom_value_le [of "m_type e"] by linarith
    have "u32 (a - ?po + ?pw + 4294967295) = a - ?po + ?pw - 1"
      using n0 n1 by (rule u32_pred)
    with c2 have c3: "checkAddress e (u32 (a - ?po + ?pw + 4294967295))"
      by simp
    from read_raw_healthy [OF h c1 c3, of c ?buf] rd have "healthy e'"
      by simp
    moreover from rd have "static e' = static e"
      by (rule read_raw_staticD)
    ultimately show ?thesis
      using True r rd by (simp add: r_def)
  next
    case False
    with r h show ?thesis
      by (auto simp: r_def)
  qed
  from splice_loop_closed [OF refl tm, of 0 "?po + ?len" d wc cmd2]
  obtain cmd3 where sp: "splice_loop (?pw - ?po) btw (?po + ?len) d wc 0 cmd2 = Some cmd3"
    by simp
  let ?bs = "map cmd3 [0 ..< ?pw + ?len]"
  let ?b1 = "m_i2c e1"
  have len: "address_len e1 = ?len"
    using e1 by (intro address_len_static) simp
  have b1: "present ?b1" "busy ?b1 = 0" "alen ?b1 = ?len"
    using e1 len by (simp_all add: healthy_def)
  have lbs: "alen ?b1 \<le> length ?bs"
    unfolding b1(3) by simp
  define b2 where "b2 = snd (i2c_write ?b1 (device_address e pb) ?bs False)"
  have w: "i2c_write ?b1 (device_address e pb) ?bs False = (0, b2)"
    unfolding b2_def i2c_write_idle [OF b1(1) b1(2) lbs] by simp
  have b2: "present b2" "alen b2 = ?len"
    unfolding b2_def i2c_write_idle [OF b1(1) b1(2) lbs] using b1 by simp_all
  let ?e2 = "e1\<lparr>m_i2c := b2\<rparr>"
  have e2: "m_errnum ?e2 = EEPROM_NoError" "present (m_i2c ?e2)" "0 < alen (m_i2c ?e2)"
    using e1 b2 address_len_pos [of e] by (simp_all add: healthy_def)
  define e3 where "e3 = the (ready ?e2)"
  have rdy: "ready ?e2 = Some e3"
    unfolding e3_def ready_eq [OF e2] by simp
  have e3: "healthy e3" "static e3 = static e"
    unfolding e3_def ready_eq [OF e2] using e1 b2 len
    by (simp_all add: healthy_def address_len_def)
  have "write_page (Some c) start d l (e, cmd, address, wc, btw)
          = Some (False, (e3, cmd3,
                  u32 (start + u32 (wc + (?pw - ?po))), u32 (wc + (?pw - ?po)),
                  to_int32 (l + 4294967296 - u32 (wc + (?pw - ?po)))))"
    using r sp w rdy
    by (simp add: write_page_def cpb Let_def r_def)
  with e3 show ?thesis
    by blast
qed


lemma splice_loop_0:
  "min room (nat bytes_to_write) \<le> 255 \<Longrightarrow>
   splice_loop room bytes_to_write base data written_cnt 0 cmd
     = Some (\<lambda>k. if base \<le> k \<and> k < base + min room (nat bytes_to_write)
                  then data ! (written_cnt + (k - base)) else cmd k)"
  using splice_loop_closed [OF refl, of room bytes_to_write 0 base data written_cnt cmd]
  by simp

lemma pw_le: "m_page_write (EEPROM b0 cs type) \<le> 256"
  by (cases type) (simp_all add: page_write_EEPROM)

lemma pw_pos: "0 < m_page_write (EEPROM b0 cs type)"
  by (cases type) (simp_all add: page_write_EEPROM)

subsection \<open>Running the driver on a given chip\<close>

lemma store_bytes_apply:
  "store_bytes f p bs c = (if p \<le> c \<and> c < p + length bs then bs ! (c - p) else f c)"
  by (simp add: store_bytes_def)

lemmas run_defs = write_array_def count_blocs_def write_page_def read_raw_def read_array_def
  eval_defs
  to_int32_def
  splice_loop_0 ready_eq upt_conv_Cons store_bytes_apply

subsection \<open>A write of no bytes\<close>

lemma t24c16_write_0_at_5_no_block:
  "write_array (EEPROM (chip 1 (\<lambda>c. 0) 0) 0 T24C16) (\<lambda>k. 0) (\<lambda>i. None) 5 [] 0
   = Some (EEPROM (chip 1 (\<lambda>c. 0) 0) 0 T24C16
       \<lparr>m_i2c := \<lparr>mem = store_bytes (\<lambda>c. 0) 20480 [0, 0, 0, 0, 0, 0, 0, 0, 0, 0, 0, 0, 0, 0, 0, 0],
                  ptr = 20496, alen = 1, busy = 0, cycle = 0, present = True,
                  log = [Xfer_Write 0xA0 [0, 0, 0, 0, 0, 0, 0, 0, 0, 0, 0, 0, 0, 0, 0, 0, 0] False]\<rparr>,
         m_errnum := EEPROM_MallocError\<rparr>)"
  by (simp add: run_defs ready_def)

text \<open>
  Claim C9, as stated, fails at the start address 0, which is in range for every
  variant: the check of the last byte computes \<open>address + length - 1\<close> in 32 bits, which
  is \<open>0xFFFFFFFF\<close> for address 0 and length 0, and the call records
  \<open>EEPROM_OutOfRange\<close>, also when every allocation would give a block. It fails as well
  at the start address 5 when the allocation of the refresh read gives no block: the
  offset of 5 in its page is not 0, so the call runs one round, whose refresh read
  records \<open>EEPROM_MallocError\<close>, and the round sends the page all the same.
\<close>

theorem zero_length_write_counterexample:
  "healthy (EEPROM (chip 1 (\<lambda>c. 0) 0) 0 T24C16)
   \<and> checkAddress (EEPROM (chip 1 (\<lambda>c. 0) 0) 0 T24C16) 0
   \<and> write_array (EEPROM (chip 1 (\<lambda>c. 0) 0) 0 T24C16) (\<lambda>k. 0) (\<lambda>i. Some (replicate 16 0)) 0 [] 0
       = Some (EEPROM (chip 1 (\<lambda>c. 0) 0) 0 T24C16 \<lparr>m_errnum := EEPROM_OutOfRange\<rparr>)
   \<and> checkAddress (EEPROM (chip 1 (\<lambda>c. 0) 0) 0 T24C16) 5
   \<and> map_option m_errnum
       (write_array (EEPROM (chip 1 (\<lambda>c. 0) 0) 0 T24C16) (\<lambda>k. 0) (\<lambda>i. None) 5 [] 0)
       = Some EEPROM_MallocError
   \<and> map_option (\<lambda>e. log (m_i2c e))
       (write_array (EEPROM (chip 1 (\<lambda>c. 0) 0) 0 T24C16) (\<lambda>k. 0) (\<lambda>i. None) 5 [] 0)
       = Some [Xfer_Write 0xA0 [0, 0, 0, 0, 0, 0, 0, 0, 0, 0, 0, 0, 0, 0, 0, 0, 0] False]"
  apply (intro conjI)
       apply (simp add: healthy_def eval_defs)
      apply (simp add: eval_defs)
     apply (simp add: write_array_def eval_defs)
    apply (simp add: eval_defs)
   apply (subst t24c16_write_0_at_5_no_block)
   apply simp
  apply (subst t24c16_write_0_at_5_no_block)
  apply simp
  done

text \<open>
  Claim C9, amended. For every variant and every in-range start address other than 0,
  the array write with length 0 on a healthy device returns and leaves the error state
  at \<open>EEPROM_NoError\<close>, provided that the allocation of the refresh read gives a block
  when the call runs a round, which it does when the start address is not the start of
  a page. (\<open>mallocs 0\<close> is what \<open>malloc\<close> returns in the first round.)
\<close>

theorem zero_length_write:
  assumes h: "healthy (EEPROM bus cs type)"
    and chk: "checkAddress (EEPROM bus cs type) address"
    and pos: "0 < address"
    and blk: "address mod m_page_write (EEPROM bus cs type) \<noteq> 0 \<longrightarrow> mallocs 0 \<noteq> None"
  shows "\<exists>e'. write_array (EEPROM bus cs type) cmd0 mallocs address data 0 = Some e'
              \<and> m_errnum e' = EEPROM_NoError"
proof -
  let ?e = "EEPROM bus cs type"
  let ?pw = "m_page_write ?e"
  let ?offset = "address mod ?pw"
  have err: "m_errnum ?e = EEPROM_NoError"
    using h by (simp add: healthy_def)
  have pw: "0 < ?pw" "?pw \<le> 256"
    by (rule pw_pos, rule pw_le)
  have "address \<le> 4294967296"
    using checkAddress_bound [OF chk] TypeEeprom_value_le [of "m_type ?e"] by linarith
  with pos have "u32 (address + 4294967295) = address - 1"
    by (rule u32_pred)
  moreover have "checkAddress ?e (address - 1)"
    using chk by (rule checkAddress_mono) simp
  ultimately have chk2: "checkAddress ?e (u32 (address + 0 + 4294967295))"
    by simp
  have off: "?offset < ?pw"
    using pw by simp
  have o32: "?offset < 4294967296" and o16: "?offset < 65536"
    using off pw by linarith+
  have blocs0: "(u32 (0 + ?offset) div ?pw) mod 256 = 0"
    using off o32 by (simp add: u32_def)
  have remain: "u32 (u32 (0 + ?offset) + 4294967296 - 0 * ?pw) mod 65536 = ?offset"
    using o32 o16 by (simp add: u32_def)
  have wa: "write_array ?e cmd0 mallocs address data 0
              = write_pages (if ?offset \<noteq> 0 then 1 else 0) mallocs 0 address data 0
                  (?e, cmd0, address, 0, 0)"
    using err chk chk2 blocs0 remain
    by (simp add: write_array_def count_blocs_def Let_def to_int32_def u32_def)
  show ?thesis
  proof (cases "?offset = 0")
    case True
    with wa err show ?thesis by simp
  next
    case False
    with blk obtain c where c: "mallocs 0 = Some c"
      by auto
    obtain pb a where cpb: "compute_page_block ?e address = (pb, a)"
      by (cases "compute_page_block ?e address")
    have tm: "min (?pw - a mod ?pw) (nat 0) \<le> 255"
      by simp
    from write_page_healthy [OF h refl chk cpb tm, of c address data 0 cmd0 0]
    obtain e' s' where
      wp: "write_page (Some c) address data 0 (?e, cmd0, address, 0, 0) = Some (False, (e', s'))"
      and e': "healthy e'"
      by blast
    from wa False wp c have "write_array ?e cmd0 mallocs address data 0 = Some e'"
      by simp
    with e' show ?thesis
      by (auto simp: healthy_def)
  qed
qed

theorem zero_length_write_witness:
  "healthy (EEPROM (chip 1 (\<lambda>c. 0) 0) 0 T24C16)
   \<and> checkAddress (EEPROM (chip 1 (\<lambda>c. 0) 0) 0 T24C16) 5
   \<and> (0 :: nat) < 5
   \<and> 5 mod m_page_write (EEPROM (chip 1 (\<lambda>c. 0) 0) 0 T24C16) \<noteq> 0
   \<and> (\<exists>e'. write_array (EEPROM (chip 1 (\<lambda>c. 0) 0) 0 T24C16) (\<lambda>k. 0)
                (\<lambda>i. Some (replicate 16 0)) 5 [] 0 = Some e'
             \<and> m_errnum e' = EEPROM_NoError)"
proof -
  have h: "healthy (EEPROM (chip 1 (\<lambda>c. 0) 0) 0 T24C16)"
    by (simp add: healthy_def eval_defs)
  have c: "checkAddress (EEPROM (chip 1 (\<lambda>c. 0) 0) 0 T24C16) 5"
    by (simp add: eval_defs)
  have p: "(0 :: nat) < 5"
    by simp
  have o: "5 mod m_page_write (EEPROM (chip 1 (\<lambda>c. 0) 0) 0 T24C16) \<noteq> 0"
    by (simp add: EEPROM_def)
  have b: "5 mod m_page_write (EEPROM (chip 1 (\<lambda>c. 0) 0) 0 T24C16) \<noteq> 0
           \<longrightarrow> (\<lambda>i :: nat. Some (replicate 16 (0 :: byte))) 0 \<noteq> None"
    by simp
  from zero_length_write [OF h c p b] h c o show ?thesis
    by simp
qed

subsection \<open>A write of 20 bytes across two pages\<close>

lemma t24c16_write:
  "write_array (EEPROM (chip 1 m c) cs T24C16) cmd0 (\<lambda>i. Some (blk i)) 10
       [d0, d1, d2, d3, d4, d5, d6, d7, d8, d9, d10, d11, d12, d13, d14, d15, d16, d17, d18, d19] 20
   = Some (EEPROM (chip 1 m c) cs T24C16
       \<lparr>m_i2c := \<lparr>mem = store_bytes
                          (store_bytes m 20480
                             [m 20480, m 20481, m 20482, m 20483, m 20484, m 20485, m 20486,
                              m 20487, m 20488, m 20489, d0, d1, d2, d3, d4, d5])
                          20496
                          [d6, d7, d8, d9, d10, d11, d12, d13, d14, d15, d16, d17, d18, d19,
                           m 20510, m 20511],
                  ptr = 20512, alen = 1, busy = 0, cycle = c, present = True,
                  log = [Xfer_Write 0xA0 [0] True, Xfer_Read 0xA0 16,
                         Xfer_Write 0xA0
                           [0, m 20480, m 20481, m 20482, m 20483, m 20484, m 20485, m 20486,
                            m 20487, m 20488, m 20489, d0, d1, d2, d3, d4, d5] False]
                        @ replicate (Suc c) (Xfer_Write 0xA0 [] False)
                        @ [Xfer_Write 0xA0 [16] True, Xfer_Read 0xA0 16,
                           Xfer_Write 0xA0
                             [16, d6, d7, d8, d9, d10, d11, d12, d13, d14, d15, d16, d17, d18,
                              d19, m 20510, m 20511] False]
                        @ replicate (Suc c) (Xfer_Write 0xA0 [] False)\<rparr>\<rparr>)"
  by (simp add: run_defs)

lemma t24c16_read:
  "read_array (EEPROM (chip 1 m c) cs T24C16
       \<lparr>m_i2c := \<lparr>mem = store_bytes
                          (store_bytes m 20480
                             [m 20480, m 20481, m 20482, m 20483, m 20484, m 20485, m 20486,
                              m 20487, m 20488, m 20489, d0, d1, d2, d3, d4, d5])
                          20496
                          [d6, d7, d8, d9, d10, d11, d12, d13, d14, d15, d16, d17, d18, d19,
                           m 20510, m 20511],
                  ptr = 20512, alen = 1, busy = 0, cycle = c, present = True,
                  log = l\<rparr>\<rparr>) 10 buf 20
   = (EEPROM (chip 1 m c) cs T24C16
       \<lparr>m_i2c := \<lparr>mem = store_bytes
                          (store_bytes m 20480
                             [m 20480, m 20481, m 20482, m 20483, m 20484, m 20485, m 20486,
                              m 20487, m 20488, m 20489, d0, d1, d2, d3, d4, d5])
                          20496
                          [d6, d7, d8, d9, d10, d11, d12, d13, d14, d15, d16, d17, d18, d19,
                           m 20510, m 20511],
                  ptr = 20510, alen = 1, busy = 0, cycle = c, present = True,
                  log = l @ [Xfer_Write 0xA0 [10] True, Xfer_Read 0xA0 20]\<rparr>\<rparr>,
      [d0, d1, d2, d3, d4, d5, d6, d7, d8, d9, d10, d11, d12, d13, d14, d15, d16, d17, d18, d19]
        @ drop 20 buf)"
  by (simp add: run_defs)

lemma t24c16_write_no_block:
  "write_array (EEPROM (chip 1 (\<lambda>c. 0) 0) 0 T24C16) (\<lambda>k. 0xEE) (\<lambda>i. None) 10
       [1, 2, 3, 4, 5, 6, 7, 8, 9, 10, 11, 12, 13, 14, 15, 16, 17, 18, 19, 20] 20
   = Some (EEPROM (chip 1 (\<lambda>c. 0) 0) 0 T24C16
       \<lparr>m_i2c := \<lparr>mem = store_bytes
                          (store_bytes (\<lambda>c. 0) 20480
                             [0xEE, 0xEE, 0xEE, 0xEE, 0xEE, 0xEE, 0xEE, 0xEE, 0xEE, 0xEE,
                              1, 2, 3, 4, 5, 6])
                          20496
                          [7, 8, 9, 10, 11, 12, 13, 14, 15, 16, 17, 18, 19, 20, 5, 6],
                  ptr = 20512, alen = 1, busy = 0, cycle = 0, present = True,
                  log = [Xfer_Write 0xA0
                           [0, 0xEE, 0xEE, 0xEE, 0xEE, 0xEE, 0xEE, 0xEE, 0xEE, 0xEE, 0xEE,
                            1, 2, 3, 4, 5, 6] False,
                         Xfer_Write 0xA0
                           [16, 7, 8, 9, 10, 11, 12, 13, 14, 15, 16, 17, 18, 19, 20, 5, 6]
                           False]\<rparr>,
         m_errnum := EEPROM_MallocError\<rparr>)"
  by (simp add: run_defs ready_def)

text \<open>
  Claim C5, as stated, fails when the allocations of the refresh reads give no block.
  On a healthy \<open>T24C16\<close> that holds zeros, with a page buffer that holds \<open>0xEE\<close> on
  entry, the array write of the bytes 1 to 20 at logical address 10 returns with
  \<open>EEPROM_MallocError\<close>. No page was read. The first page write carries the bytes of the
  uninitialised buffer in the place of the chip's bytes 0 to 9, the second carries two
  bytes left in the buffer by the first round in the place of the chip's bytes 30 and
  31. A read of 20 bytes at address 10 then does nothing, and leaves the caller's buffer
  as it was.
\<close>

theorem t24c16_write_20_at_10_counterexample:
  "healthy (EEPROM (chip 1 (\<lambda>c. 0) 0) 0 T24C16)
   \<and> map_option m_errnum
       (write_array (EEPROM (chip 1 (\<lambda>c. 0) 0) 0 T24C16) (\<lambda>k. 0xEE) (\<lambda>i. None) 10
          [1, 2, 3, 4, 5, 6, 7, 8, 9, 10, 11, 12, 13, 14, 15, 16, 17, 18, 19, 20] 20)
       = Some EEPROM_MallocError
   \<and> map_option (\<lambda>e. log (m_i2c e))
       (write_array (EEPROM (chip 1 (\<lambda>c. 0) 0) 0 T24C16) (\<lambda>k. 0xEE) (\<lambda>i. None) 10
          [1, 2, 3, 4, 5, 6, 7, 8, 9, 10, 11, 12, 13, 14, 15, 16, 17, 18, 19, 20] 20)
       = Some [Xfer_Write 0xA0
                 [0, 0xEE, 0xEE, 0xEE, 0xEE, 0xEE, 0xEE, 0xEE, 0xEE, 0xEE, 0xEE,
                  1, 2, 3, 4, 5, 6] False,
               Xfer_Write 0xA0
                 [16, 7, 8, 9, 10, 11, 12, 13, 14, 15, 16, 17, 18, 19, 20, 5, 6] False]
   \<and> map_option (\<lambda>e. snd (read_array e 10 (replicate 20 0) 20))
       (write_array (EEPROM (chip 1 (\<lambda>c. 0) 0) 0 T24C16) (\<lambda>k. 0xEE) (\<lambda>i. None) 10
          [1, 2, 3, 4, 5, 6, 7, 8, 9, 10, 11, 12, 13, 14, 15, 16, 17, 18, 19, 20] 20)
       = Some (replicate 20 0)"
  apply (intro conjI)
     apply (simp add: healthy_def eval_defs)
    apply (subst t24c16_write_no_block)
    apply simp
   apply (subst t24c16_write_no_block)
   apply simp
  apply (subst t24c16_write_no_block)
  apply (simp add: read_array_def)
  done

text \<open>
  Claim C5, amended: the claim holds when each allocation of a refresh read gives a
  block, whatever the block holds (\<open>blk i\<close> is what the block of round \<open>i\<close> holds). On
  a \<open>T24C16\<close> (page size 16, 8 blocks, one byte of word address) on a
  healthy chip, holding any bytes \<open>m\<close>, the array write of 20 bytes at logical address
  10 then returns without error. The log of the bus is: the word address 0 and a read of
  16 bytes, the write of the page at 0 (the bytes the chip held at 0 to 9, then the first
  6 bytes of the payload), the polls of the write cycle, the word address 16 and a read
  of 16 bytes, the write of the page at 16 (the other 14 bytes of the payload, then the
  bytes the chip held at 30 and 31), the polls. These two are the only transactions that
  carry data. A read of 20 bytes at address 10 then returns the payload. (Cell \<open>20480\<close>
  is the chip's byte 0: device address \<open>0xA0\<close>, word address 0.)
\<close>

theorem t24c16_write_20_at_10:
  "\<exists>e1 e2.
     write_array (EEPROM (chip 1 m c) cs T24C16) cmd0 (\<lambda>i. Some (blk i)) 10
       [d0, d1, d2, d3, d4, d5, d6, d7, d8, d9, d10, d11, d12, d13, d14, d15, d16, d17, d18, d19] 20
       = Some e1
     \<and> m_errnum e1 = EEPROM_NoError
     \<and> log (m_i2c e1)
         = [Xfer_Write 0xA0 [0] True, Xfer_Read 0xA0 16,
            Xfer_Write 0xA0 (0 # map m [20480..<20490] @ [d0, d1, d2, d3, d4, d5]) False]
           @ replicate (Suc c) (Xfer_Write 0xA0 [] False)
           @ [Xfer_Write 0xA0 [16] True, Xfer_Read 0xA0 16,
              Xfer_Write 0xA0
                (16 # [d6, d7, d8, d9, d10, d11, d12, d13, d14, d15, d16, d17, d18, d19]
                    @ [m 20510, m 20511]) False]
           @ replicate (Suc c) (Xfer_Write 0xA0 [] False)
     \<and> page_writes 1 (log (m_i2c e1))
         = [Xfer_Write 0xA0 (0 # map m [20480..<20490] @ [d0, d1, d2, d3, d4, d5]) False,
            Xfer_Write 0xA0
              (16 # [d6, d7, d8, d9, d10, d11, d12, d13, d14, d15, d16, d17, d18, d19]
                  @ [m 20510, m 20511]) False]
     \<and> read_array e1 10 buf 20
         = (e2, [d0, d1, d2, d3, d4, d5, d6, d7, d8, d9, d10, d11, d12, d13, d14, d15, d16, d17, d18, d19]
                @ drop 20 buf)
     \<and> m_errnum e2 = EEPROM_NoError"
  apply (intro exI conjI)
       apply (rule t24c16_write)
      apply (simp add: EEPROM_def)
     apply (simp add: upt_conv_Cons)
    apply (simp add: upt_conv_Cons page_writes_def)
   apply (rule t24c16_read)
  apply (simp add: EEPROM_def)
  done

subsection \<open>The inner loop on a page of 256 bytes\<close>

text \<open>
  With a page of 256 bytes that is to be filled from its start, and 256 bytes or more
  still to write, the 8-bit counter \<open>j\<close> never reaches the end of the page: the inner
  loop does not return, and neither does the array write. This is the case of a write
  of a whole page of an \<open>M24M02\<close>.
\<close>

lemma splice_loop_never_returns:
  assumes ret: "splice_loop room bytes_to_write base data written_cnt j cmd = Some r"
  shows "\<not> (255 < room \<and> 255 < bytes_to_write \<and> j < 256)"
proof (rule splice_loop.raw_induct
         [where P = "\<lambda>room bytes_to_write base data written_cnt j cmd r.
                       \<not> (255 < room \<and> 255 < bytes_to_write \<and> j < 256)", OF _ ret])
  fix f room bytes_to_write base data written_cnt j and cmd r :: "nat \<Rightarrow> byte"
  assume ih: "\<And>room bytes_to_write base data written_cnt j cmd r.
                f room bytes_to_write base data written_cnt j cmd = Some r \<Longrightarrow>
                \<not> (255 < room \<and> 255 < bytes_to_write \<and> j < 256)"
    and step: "(if j < room \<and> int j < bytes_to_write
                then f room bytes_to_write base data written_cnt ((j + 1) mod 256)
                       (cmd(j + base := data ! (written_cnt + j)))
                else Some cmd) = Some r"
  show "\<not> (255 < room \<and> 255 < bytes_to_write \<and> j < 256)"
  proof
    assume a: "255 < room \<and> 255 < bytes_to_write \<and> j < 256"
    then have "j < room \<and> int j < bytes_to_write"
      by auto
    with step have "f room bytes_to_write base data written_cnt ((j + 1) mod 256)
                      (cmd(j + base := data ! (written_cnt + j))) = Some r"
      by simp
    from ih [OF this] a show False
      by simp
  qed
qed

lemma splice_loop_full_page:
  "255 < room \<Longrightarrow> 255 < bytes_to_write \<Longrightarrow>
   splice_loop room bytes_to_write base data written_cnt 0 cmd = None"
  using splice_loop_never_returns [of room bytes_to_write base data written_cnt 0 cmd]
  by (cases "splice_loop room bytes_to_write base data written_cnt 0 cmd") auto

lemma m24m02_full_page_never_returns:
  "write_array (EEPROM (chip 2 m c) 0 M24M02) cmd0 mallocs 0 data 256 = None"
  by (simp add: run_defs splice_loop_full_page)

text \<open>
  The number of rounds is an 8-bit counter as well: for the 8192 bytes of a \<open>T24C64\<close>,
  which are 256 pages, it comes out as 1.
\<close>

lemma count_blocs_wraps: "count_blocs 32 0 8192 = 1"
  by (simp add: count_blocs_def u32_def)

subsection \<open>A payload in the second block of a small chip\<close>

lemma t24c04_write_268:
  "write_array (EEPROM (chip 1 (\<lambda>c. 0) 0) 0 T24C04) (\<lambda>k. 0) (\<lambda>i. Some (replicate 16 0))
       268 [1, 2, 3, 4] 4
   = Some (EEPROM (chip 1 (\<lambda>c. 0) 0) 0 T24C04
       \<lparr>m_i2c := \<lparr>mem = store_bytes (\<lambda>c. 0) 20736 [0, 0, 0, 0, 0, 0, 0, 0, 0, 0, 0, 0, 0, 1, 2, 3],
                  ptr = 20752, alen = 1, busy = 0, cycle = 0, present = True,
                  log = [Xfer_Write 0xA0 [0] True, Xfer_Read 0xA0 16,
                         Xfer_Write 0xA2 [0, 0, 0, 0, 0, 0, 0, 0, 0, 0, 0, 0, 0, 0, 1, 2, 3] False,
                         Xfer_Write 0xA0 [] False]\<rparr>\<rparr>)"
  by (simp add: run_defs)

lemma t24c04_read_268:
  "read_array (EEPROM (chip 1 (\<lambda>c. 0) 0) 0 T24C04
       \<lparr>m_i2c := \<lparr>mem = store_bytes (\<lambda>c. 0) 20736 [0, 0, 0, 0, 0, 0, 0, 0, 0, 0, 0, 0, 0, 1, 2, 3],
                  ptr = 20752, alen = 1, busy = 0, cycle = 0, present = True,
                  log = l\<rparr>\<rparr>) 268 [0, 0, 0, 0] 4
   = (EEPROM (chip 1 (\<lambda>c. 0) 0) 0 T24C04
       \<lparr>m_i2c := \<lparr>mem = store_bytes (\<lambda>c. 0) 20736 [0, 0, 0, 0, 0, 0, 0, 0, 0, 0, 0, 0, 0, 1, 2, 3],
                  ptr = 20753, alen = 1, busy = 0, cycle = 0, present = True,
                  log = l @ [Xfer_Write 0xA2 [13] True, Xfer_Read 0xA2 4]\<rparr>\<rparr>,
      [1, 2, 3, 0])"
  by (simp add: run_defs)

text \<open>
  Claim C1 at a failing input. A \<open>T24C04\<close> with chip-select 0 on a healthy chip that
  holds zeros; the span of 4 bytes at logical address 268 is in range; the allocation
  of the refresh read gives a block (of 16 zero bytes). The write of
  \<open>1, 2, 3, 4\<close> at 268 returns without error, and the read of 4 bytes at 268 returns
  \<open>1, 2, 3, 0\<close>: the last byte of the payload was not written. The number of rounds
  comes from the offset of the logical address in its page (\<open>268 % 16 = 12\<close>, so one
  round for 4 bytes), the place in the page from the in-block address
  (\<open>268 % 255 = 13\<close>), where the page has room for 3 bytes.
\<close>

theorem round_trip_fails_t24c04:
  "\<exists>e1 e2.
     healthy (EEPROM (chip 1 (\<lambda>c. 0) 0) 0 T24C04)
     \<and> checkAddress (EEPROM (chip 1 (\<lambda>c. 0) 0) 0 T24C04) 268
     \<and> checkAddress (EEPROM (chip 1 (\<lambda>c. 0) 0) 0 T24C04) 271
     \<and> write_array (EEPROM (chip 1 (\<lambda>c. 0) 0) 0 T24C04) (\<lambda>k. 0) (\<lambda>i. Some (replicate 16 0))
           268 [1, 2, 3, 4] 4 = Some e1
     \<and> m_errnum e1 = EEPROM_NoError
     \<and> read_array e1 268 [0, 0, 0, 0] 4 = (e2, [1, 2, 3, 0])
     \<and> m_errnum e2 = EEPROM_NoError"
  apply (intro exI conjI)
        apply (simp add: healthy_def eval_defs)
       apply (simp add: eval_defs)
      apply (simp add: eval_defs)
     apply (rule t24c04_write_268)
    apply (simp add: EEPROM_def)
   apply (rule t24c04_read_268)
  apply (simp add: EEPROM_def)
  done

lemma t24c04_write_260:
  "write_array (EEPROM (chip 1 two_blocks 0) 0 T24C04) (\<lambda>k. 0) (\<lambda>i. Some (replicate 16 0))
       260 [0x33] 1
   = Some (EEPROM (chip 1 two_blocks 0) 0 T24C04
       \<lparr>m_i2c := \<lparr>mem = store_bytes two_blocks 20736
                          [0x11, 0x11, 0x11, 0x11, 0x11, 0x33, 0x11, 0x11,
                           0x11, 0x11, 0x11, 0x11, 0x11, 0x11, 0x11, 0x11],
                  ptr = 20752, alen = 1, busy = 0, cycle = 0, present = True,
                  log = [Xfer_Write 0xA0 [0] True, Xfer_Read 0xA0 16,
                         Xfer_Write 0xA2
                           [0, 0x11, 0x11, 0x11, 0x11, 0x11, 0x33, 0x11, 0x11,
                            0x11, 0x11, 0x11, 0x11, 0x11, 0x11, 0x11, 0x11] False,
                         Xfer_Write 0xA0 [] False]\<rparr>\<rparr>)"
  by (simp add: run_defs two_blocks_def)

lemma t24c04_read_255_before:
  "snd (read_array (EEPROM (chip 1 two_blocks 0) 0 T24C04) 255 [] 16)
   = [0x22, 0x22, 0x22, 0x22, 0x22, 0x22, 0x22, 0x22,
      0x22, 0x22, 0x22, 0x22, 0x22, 0x22, 0x22, 0x22]"
  by (simp add: run_defs two_blocks_def)

lemma t24c04_read_255_after:
  "snd (read_array (EEPROM (chip 1 two_blocks 0) 0 T24C04
       \<lparr>m_i2c := \<lparr>mem = store_bytes two_blocks 20736
                          [0x11, 0x11, 0x11, 0x11, 0x11, 0x33, 0x11, 0x11,
                           0x11, 0x11, 0x11, 0x11, 0x11, 0x11, 0x11, 0x11],
                  ptr = 20752, alen = 1, busy = 0, cycle = 0, present = True,
                  log = l\<rparr>\<rparr>) 255 [] 16)
   = [0x11, 0x11, 0x11, 0x11, 0x11, 0x33, 0x11, 0x11,
      0x11, 0x11, 0x11, 0x11, 0x11, 0x11, 0x11, 0x11]"
  by (simp add: run_defs two_blocks_def)

text \<open>
  Claim C4 at a failing input. The same variant on a chip whose first block holds
  \<open>0x11\<close> and whose second block holds \<open>0x22\<close>; the allocation of the refresh read
  gives a block. The write of the one byte \<open>0x33\<close> at
  logical address 260 is a write into the page of the logical addresses 255 to 270
  (device address \<open>0xA2\<close>, words 0 to 15). Before the call a read of these 16 bytes
  returns \<open>0x22\<close> throughout; after it, every byte of the page but the one written holds
  \<open>0x11\<close>: the page was refreshed from the first block, because the in-block address
  of the page is handed to \<open>read\<close>, which resolves it as a logical address.
\<close>

theorem partial_page_write_clobbers_t24c04:
  "\<exists>e1.
     healthy (EEPROM (chip 1 two_blocks 0) 0 T24C04)
     \<and> checkAddress (EEPROM (chip 1 two_blocks 0) 0 T24C04) 260
     \<and> snd (read_array (EEPROM (chip 1 two_blocks 0) 0 T24C04) 255 [] 16)
         = [0x22, 0x22, 0x22, 0x22, 0x22, 0x22, 0x22, 0x22,
            0x22, 0x22, 0x22, 0x22, 0x22, 0x22, 0x22, 0x22]
     \<and> write_array (EEPROM (chip 1 two_blocks 0) 0 T24C04) (\<lambda>k. 0) (\<lambda>i. Some (replicate 16 0))
           260 [0x33] 1 = Some e1
     \<and> m_errnum e1 = EEPROM_NoError
     \<and> snd (read_array e1 255 [] 16)
         = [0x11, 0x11, 0x11, 0x11, 0x11, 0x33, 0x11, 0x11,
            0x11, 0x11, 0x11, 0x11, 0x11, 0x11, 0x11, 0x11]"
  apply (intro exI conjI)
       apply (simp add: healthy_def eval_defs)
      apply (simp add: eval_defs)
     apply (rule t24c04_read_255_before)
    apply (rule t24c04_write_260)
   apply (simp add: EEPROM_def)
  apply (rule t24c04_read_255_after)
  done

subsection \<open>Clearing an M24M02\<close>

lemma write_scalar_no_error:
  assumes "write_scalar w e cmd0 ms a d = Some e'" and "m_errnum e' = EEPROM_NoError"
  shows "m_errnum e = EEPROM_NoError \<and> checkAddress e (u32 (a + (w - 1)))
         \<and> static e' = static e"
proof -
  have "m_errnum e = EEPROM_NoError"
    using assms faulted_ops(3) [of e w cmd0 ms a d] by auto
  moreover have "checkAddress e (u32 (a + (w - 1)))"
    using assms calculation by (auto simp: write_scalar_def split: if_splits)
  moreover have "static e' = static e"
    using assms(1) by (rule write_scalar_static)
  ultimately show ?thesis by simp
qed

lemma clear_loop_no_error:
  "clear_loop n i cmd0 ms e = Some e' \<Longrightarrow> m_errnum e' = EEPROM_NoError \<Longrightarrow> k < n \<Longrightarrow>
   checkAddress e (u32 (u32 ((i + k) * 4) + 3))"
proof (induction n arbitrary: i e k)
  case 0
  then show ?case by simp
next
  case (Suc n)
  from Suc.prems(1) obtain e1 where
    w: "write_scalar 4 e cmd0 (ms i) (u32 (i * 4)) [0, 0, 0, 0] = Some e1"
    and r: "clear_loop n (i + 1) cmd0 ms e1 = Some e'"
    by (auto simp: write_int32_def split: option.splits)
  have e1: "m_errnum e1 = EEPROM_NoError"
    using r Suc.prems(2) clear_loop_faulted [of e1 n "i + 1" cmd0 ms] by auto
  from write_scalar_no_error [OF w e1]
  have c0: "checkAddress e (u32 (u32 (i * 4) + 3))" and st: "static e1 = static e"
    by simp_all
  show ?case
  proof (cases k)
    case 0
    with c0 show ?thesis by simp
  next
    case (Suc k')
    with Suc.prems(3) have "k' < n" by simp
    from Suc.IH [OF r Suc.prems(2) this]
    have "checkAddress e1 (u32 (u32 ((i + 1 + k') * 4) + 3))" .
    then show ?thesis
      using Suc st by (simp add: checkAddress_static [OF st])
  qed
qed

lemma page_write_dvd4: "4 dvd m_page_write (EEPROM b0 cs type)"
  by (cases type) (simp_all add: page_write_EEPROM)

lemma u32_wrap: "u32 (x + 4294967296) = u32 x"
  by (simp add: u32_def)

lemma word_write_rounds:
  fixes a pw :: nat
  assumes pw: "0 < pw" "pw \<le> 256" "4 dvd pw" and a: "4 dvd a"
  shows "count_blocs pw a 4 = 1"
proof -
  let ?o = "a mod pw"
  have d: "4 dvd ?o"
    using pw(3) a by (simp add: dvd_mod)
  have lt: "?o < pw"
    using pw(1) by simp
  from d obtain i where i: "?o = 4 * i" ..
  from pw(3) obtain j where j: "pw = 4 * j" ..
  from lt i j have "4 * i < 4 * j" by linarith
  then have "i < j" by simp
  with i j have le: "?o + 4 \<le> pw" by linarith
  have small: "4 + ?o < 4294967296" "4 + ?o < 65536"
    using le pw(2) by linarith+
  have u: "u32 (4 + ?o) = 4 + ?o"
    using small by (simp add: u32_def)
  show ?thesis
  proof (cases "?o + 4 = pw")
    case True
    then have e: "4 + ?o = pw" by simp
    have b0: "(4 + ?o) div pw mod 256 = 1"
      unfolding e using pw(1) by simp
    have "u32 (pw + 4294967296 - 1 * pw) = 0"
      by (simp add: u32_def)
    then show ?thesis
      unfolding count_blocs_def Let_def u b0 unfolding e by simp
  next
    case False
    with le have s: "4 + ?o < pw" by simp
    then have b0: "(4 + ?o) div pw mod 256 = 0" by simp
    have "u32 (4 + ?o + 4294967296 - 0 * pw) = u32 (4 + ?o)"
      using u32_wrap [of "4 + ?o"] by simp
    then have "u32 (4 + ?o + 4294967296 - 0 * pw) mod 65536 = 4 + ?o"
      unfolding u using small by simp
    then show ?thesis
      unfolding count_blocs_def Let_def u b0 by simp
  qed
qed

lemma write_word_healthy:
  assumes h: "healthy e" and st: "static e = static (EEPROM b0 cs type)"
    and c: "checkAddress e (a + 3)" and al: "4 dvd a"
  shows "\<exists>e'. write_scalar 4 e cmd0 (\<lambda>k. Some (blk k)) a d = Some e'
              \<and> healthy e' \<and> static e' = static e"
proof -
  let ?pw = "m_page_write e"
  have err: "m_errnum e = EEPROM_NoError"
    using h by (simp add: healthy_def)
  have pw: "0 < ?pw" "?pw \<le> 256" "4 dvd ?pw"
    unfolding static_EEPROM(2) [OF st] by (rule pw_pos, rule pw_le, rule page_write_dvd4)
  have lt: "a + 3 < 4294967296"
    using checkAddress_bound [OF c] TypeEeprom_value_le [of "m_type e"] by linarith
  then have u3: "u32 (a + 3) = a + 3"
    by (simp add: u32_def)
  have "u32 (a + 4 + 4294967295) = a + 4 - 1"
    using lt by (intro u32_pred) simp_all
  then have u4: "u32 (a + 4 + 4294967295) = a + 3"
    by simp
  have c0: "checkAddress e a"
    using c by (rule checkAddress_mono) simp
  have i4: "to_int32 4 = 4"
    by (simp add: to_int32_def u32_def)
  have wa: "write_array e cmd0 (\<lambda>k. Some (blk k)) a (take 4 d) 4
              = write_pages 1 (\<lambda>k. Some (blk k)) 0 a (take 4 d) 4 (e, cmd0, a, 0, 4)"
    using err c c0 u4
    by (simp add: write_array_def i4 word_write_rounds [OF pw al] ac_simps)
  obtain pb a' where cpb: "compute_page_block e a = (pb, a')"
    by (cases "compute_page_block e a")
  have tm: "min (?pw - a' mod ?pw) (nat 4) \<le> 255"
    by simp
  from write_page_healthy [OF h st c0 cpb tm, of "blk 0" a "take 4 d" 4 cmd0 0]
  obtain e' s' where
    wp: "write_page (Some (blk 0)) a (take 4 d) 4 (e, cmd0, a, 0, 4) = Some (False, (e', s'))"
    and e': "healthy e'" "static e' = static e"
    by blast
  have "write_scalar 4 e cmd0 (\<lambda>k. Some (blk k)) a d = Some e'"
    using err c wa wp by (simp add: write_scalar_def u3)
  with e' show ?thesis
    by blast
qed

lemma clear_loop_healthy:
  assumes st: "static e0 = static (EEPROM b0 cs type)"
  shows "healthy e \<Longrightarrow> static e = static e0 \<Longrightarrow>
         checkAddress e0 (4 * (i + n)) \<Longrightarrow>
         \<exists>e'. clear_loop n i cmd0 (\<lambda>i k. Some (blk i k)) e = Some e'
              \<and> healthy e' \<and> static e' = static e0"
proof (induction n arbitrary: i e)
  case 0
  then show ?case by simp
next
  case (Suc n)
  have lt: "4 * i + 3 < 4 * (i + Suc n)"
    by simp
  have c: "checkAddress e (4 * i + 3)"
    unfolding checkAddress_static [OF Suc.prems(2)]
    using Suc.prems(3) by (rule checkAddress_mono) simp
  have "4 * i < 4294967296"
    using checkAddress_bound [OF c] TypeEeprom_value_le [of "m_type e"] by linarith
  then have u: "u32 (i * 4) = 4 * i"
    by (simp add: u32_def mult.commute)
  have st': "static e = static (EEPROM b0 cs type)"
    using Suc.prems(2) st by simp
  from write_word_healthy [OF Suc.prems(1) st' c, of cmd0 "blk i" "[0, 0, 0, 0]"]
  obtain e1 where
    w: "write_scalar 4 e cmd0 (\<lambda>k. Some (blk i k)) (4 * i) [0, 0, 0, 0] = Some e1"
    and e1: "healthy e1" "static e1 = static e"
    by auto
  have "checkAddress e0 (4 * (i + 1 + n))"
    using Suc.prems(3) by simp
  from Suc.IH [OF e1(1) _ this] e1(2) Suc.prems(2)
  obtain e' where "clear_loop n (i + 1) cmd0 (\<lambda>i k. Some (blk i k)) e1 = Some e'"
    "healthy e'" "static e' = static e0"
    by auto
  then show ?case
    using w by (simp add: write_int32_def u)
qed

lemma clear_loop_snoc:
  "clear_loop (Suc n) i cmd0 ms e
     = (case clear_loop n i cmd0 ms e of
          None \<Rightarrow> None
        | Some e1 \<Rightarrow> write_int32 e1 cmd0 (ms (i + n)) (u32 ((i + n) * 4)) [0, 0, 0, 0])"
proof (induction n arbitrary: i e)
  case 0
  show ?case by (simp split: option.splits)
next
  case (Suc n)
  show ?case
  proof (cases "write_int32 e cmd0 (ms i) (u32 (i * 4)) [0, 0, 0, 0]")
    case None
    then show ?thesis by simp
  next
    case (Some e')
    have "clear_loop (Suc (Suc n)) i cmd0 ms e = clear_loop (Suc n) (i + 1) cmd0 ms e'"
      using Some by simp
    also have "\<dots> = (case clear_loop n (i + 1) cmd0 ms e' of
                        None \<Rightarrow> None
                      | Some e1 \<Rightarrow>
                          write_int32 e1 cmd0 (ms (i + 1 + n)) (u32 ((i + 1 + n) * 4)) [0, 0, 0, 0])"
      by (rule Suc.IH)
    also have "\<dots> = (case clear_loop (Suc n) i cmd0 ms e of
                        None \<Rightarrow> None
                      | Some e1 \<Rightarrow>
                          write_int32 e1 cmd0 (ms (i + Suc n)) (u32 ((i + Suc n) * 4)) [0, 0, 0, 0])"
      using Some by (simp cong: option.case_cong)
    finally show ?thesis .
  qed
qed

lemma clear_m24m02_not_healthy:
  "\<not> (\<exists>e'. clear (EEPROM bus cs M24M02) cmd0 mallocs = Some e'
            \<and> m_errnum e' = EEPROM_NoError)"
proof
  assume "\<exists>e'. clear (EEPROM bus cs M24M02) cmd0 mallocs = Some e'
               \<and> m_errnum e' = EEPROM_NoError"
  then obtain e' where c: "clear_loop 65536 0 cmd0 mallocs (EEPROM bus cs M24M02) = Some e'"
    and e: "m_errnum e' = EEPROM_NoError"
    by (auto simp: clear_def EEPROM_def)
  from clear_loop_no_error [OF c e, of 65535]
  have "checkAddress (EEPROM bus cs M24M02) (u32 (u32 ((0 + 65535) * 4) + 3))"
    by simp
  then show False
    by (simp add: u32_def checkAddress_def EEPROM_def)
qed

lemma clear_m24m02_out_of_range:
  "\<exists>e'. clear (EEPROM (chip 2 m c) 0 M24M02) cmd0 (\<lambda>i k. Some (blk i k)) = Some e'
         \<and> m_errnum e' = EEPROM_OutOfRange"
proof -
  let ?e = "EEPROM (chip 2 m c) 0 M24M02"
  have h: "healthy ?e"
    by (simp add: healthy_def eval_defs)
  have c: "checkAddress ?e (4 * (0 + 65535))"
    by (simp add: eval_defs)
  from clear_loop_healthy [OF refl h refl c, of cmd0 blk]
  obtain e1 where l: "clear_loop 65535 0 cmd0 (\<lambda>i k. Some (blk i k)) ?e = Some e1"
    and e1: "healthy e1" "static e1 = static ?e"
    by blast
  have n: "m_size ?e div 4 = Suc 65535"
    by (simp add: EEPROM_def)
  have bad: "\<not> checkAddress e1 (u32 (u32 ((0 + 65535) * 4) + (4 - 1)))"
    unfolding checkAddress_static [OF e1(2)] by (simp add: eval_defs)
  have "clear ?e cmd0 (\<lambda>i k. Some (blk i k)) = Some (e1\<lparr>m_errnum := EEPROM_OutOfRange\<rparr>)"
    unfolding clear_def n clear_loop_snoc l
    using e1(1) bad by (simp add: write_int32_def write_scalar_def healthy_def)
  then show ?thesis
    by simp
qed

text \<open>
  Claim C7 at a failing input. On an \<open>M24M02\<close>, \<open>_size\<close> is the nominal capacity 262144,
  so the last of the 65536 calls that \<open>clear\<close> makes is \<open>write(262140, 0)\<close>, whose check
  of address 262143 fails against \<open>M24M02 - 1\<close>. Whatever the bus, the chip-select
  value and the outcome of each allocation, \<open>clear\<close> does not return with the error
  state at \<open>EEPROM_NoError\<close>; on a healthy chip (any content, any length of the write
  cycle) with chip-select 0, when each allocation of a refresh read gives a block
  (whatever the block holds), it returns with \<open>EEPROM_OutOfRange\<close>.
\<close>

theorem clear_m24m02_sets_error:
  "\<not> (\<exists>e'. clear (EEPROM bus cs M24M02) cmd0 mallocs = Some e'
            \<and> m_errnum e' = EEPROM_NoError)
   \<and> (\<exists>e'. clear (EEPROM (chip 2 m c) 0 M24M02) cmd0 (\<lambda>i k. Some (blk i k)) = Some e'
            \<and> m_errnum e' = EEPROM_OutOfRange)"
  using clear_m24m02_not_healthy [of bus cs cmd0 mallocs]
    clear_m24m02_out_of_range [of m c cmd0 blk]
  by (rule conjI)

end
